theory Spec2Isabelle
  imports Main
begin

section \<open>The wrapped engine and the values that cross the adapter\<close>

text \<open>
  \<^verbatim>\<open>bioptim/interfaces/biorbd_model.py\<close> is a class \<^verbatim>\<open>BiorbdModel\<close> holding one attribute,
  \<^verbatim>\<open>self.model\<close>, a handle to a native \<^verbatim>\<open>biorbd.Model\<close>. Every method forwards to that
  handle. The native library and the symbolic matrix library are not part of the
  repository, so the native library is a parameter of the embedding: a record of its entry
  points. Each entry point runs on the native library's hidden state (the kinematics
  cache among it) and either returns a result or raises the library's own error.
\<close>

type_synonym ('s, 'e, 'a) native = "'s \<Rightarrow> ('e + 'a) \<times> 's"

text \<open>
  Errors seen by a caller of the adapter: the engine's own error, carried as it was raised,
  or an error raised by the Python side of a method body (indexing a matrix out of range,
  assigning a block of the wrong shape, calling a method on an object that lacks it).
\<close>

datatype 'e error = EngineError 'e | IndexError | DimensionError | AttributeError

type_synonym ('s, 'e, 'a) eff = "'s \<Rightarrow> ('e error + 'a) \<times> 's"

text \<open>A symbolic matrix (\<^verbatim>\<open>MX\<close>) is the list of its columns; a column vector is one column.\<close>

type_synonym 'x mx = "'x list list"

text \<open>The methods of \<^verbatim>\<open>self.model\<close> that answer with a count.\<close>

datatype count_query =
    nbGeneralizedTorque | nbSegment | nbQuat | nbQ | nbQdot | nbQddot | nbRoot
  | nbSoftContacts | nbMuscles | nbMarkers | nbRigidContacts | nbContacts | nbDof

text \<open>The methods of \<^verbatim>\<open>self.model\<close> that answer with a sequence of native strings.\<close>

datatype names_query = nameDof | contactNames | softContactNames | muscleNames | markerNames

text \<open>The other methods of \<^verbatim>\<open>self.model\<close> the adapter calls, by their native names.\<close>

datatype model_method =
    M_DeepCopy | M_getGravity | M_segments | M_globalJCS | M_localJCS | M_mass
  | M_CoM | M_CoMdot | M_CoMddot | M_angularMomentum | M_computeQdot
  | M_segmentAngularVelocity | M_softContact | M_torque
  | M_ForwardDynamicsFreeFloatingBase | M_ForwardDynamics
  | M_ForwardDynamicsConstraintsDirect | M_InverseDynamics
  | M_ContactForcesFromForwardDynamicsConstraintsDirect
  | M_ComputeConstraintImpulsesDirect | M_stateSet | M_activationDot
  | M_muscularJointTorque | M_markers | M_marker | M_path | M_markersVelocity
  | M_torqueMax | M_rigidContactAcceleration | M_RT

text \<open>
  Python values handed to the adapter or returned by it: a symbolic matrix, a native
  object of the engine, a bound method of a native object (what \<^verbatim>\<open>self.model.marker\<close>
  without a call evaluates to), and the plain Python values.
\<close>

datatype ('n, 'x) pyval =
    MX "'x mx"
  | Native 'n
  | BoundMethod 'n model_method
  | PyBool bool
  | PyInt int
  | PyStr string
  | PyNone
  | PyList "('n, 'x) pyval list"
  | PyTuple "('n, 'x) pyval list"

record ('s, 'e, 'n, 'x) engine =
  biorbd_Model :: "string \<Rightarrow> ('s, 'e, 'n) native"
  biorbd_segment_index :: "'n \<Rightarrow> string \<Rightarrow> ('s, 'e, nat) native"
  biorbd_marker_index :: "'n \<Rightarrow> string \<Rightarrow> ('s, 'e, nat) native"
  biorbd_RotoTrans :: "('s, 'e, 'n) native"
  biorbd_SoftContactSphere :: "('n, 'x) pyval \<Rightarrow> ('s, 'e, 'n) native"
  model_count :: "'n \<Rightarrow> count_query \<Rightarrow> ('s, 'e, nat) native"
  model_names :: "'n \<Rightarrow> names_query \<Rightarrow> ('s, 'e, 'n list) native"
  model_call :: "'n \<Rightarrow> model_method \<Rightarrow> ('n, 'x) pyval list \<Rightarrow> ('s, 'e, 'n) native"
  model_call_vec :: "'n \<Rightarrow> model_method \<Rightarrow> ('n, 'x) pyval list \<Rightarrow> ('s, 'e, 'n list) native"
  model_call_pair :: "'n \<Rightarrow> model_method \<Rightarrow> ('n, 'x) pyval list \<Rightarrow> ('s, 'e, 'n \<times> 'n) native"
  model_setGravity :: "'n \<Rightarrow> ('n, 'x) pyval \<Rightarrow> ('s, 'e, unit) native"
  model_rigidContactAxisIdx :: "'n \<Rightarrow> nat \<Rightarrow> ('s, 'e, nat list) native"
  obj_to_mx :: "'n \<Rightarrow> ('s, 'e, 'x mx) native"
  obj_to_string :: "'n \<Rightarrow> ('s, 'e, string) native"
  obj_transpose :: "'n \<Rightarrow> ('s, 'e, 'n) native"
  obj_applyRT :: "'n \<Rightarrow> 'n \<Rightarrow> ('s, 'e, 'n \<times> ('n, 'x) pyval) native"
  obj_computeForceAtOrigin ::
    "'n \<Rightarrow> 'n \<Rightarrow> ('n, 'x) pyval \<Rightarrow> ('n, 'x) pyval \<Rightarrow> ('s, 'e, 'n) native"

text \<open>
  \<^verbatim>\<open>m.applyRT(rt)\<close> changes the native object \<^verbatim>\<open>m\<close> in place and returns a Python value:
  \<^const>\<open>obj_applyRT\<close> answers with the object after the change and that value.
\<close>

record 'n BiorbdModel =
  model :: 'n

section \<open>Sequencing: a Python method body\<close>

definition return :: "'a \<Rightarrow> ('s, 'e, 'a) eff" where
  "return a = (\<lambda>s. (Inr a, s))"

definition raise :: "'e error \<Rightarrow> ('s, 'e, 'a) eff" where
  "raise x = (\<lambda>s. (Inl x, s))"

text \<open>One statement after another: an exception of the first ends the body.\<close>

definition and_then :: "('s, 'e, 'a) eff \<Rightarrow> ('a \<Rightarrow> ('s, 'e, 'b) eff) \<Rightarrow> ('s, 'e, 'b) eff" where
  "and_then m f = (\<lambda>s. case m s of (Inl x, s') \<Rightarrow> (Inl x, s') | (Inr a, s') \<Rightarrow> f a s')"

text \<open>A call into the engine from a method body; there is no \<^verbatim>\<open>try\<close> around any of them.\<close>

definition native :: "('s, 'e, 'a) native \<Rightarrow> ('s, 'e, 'a) eff" where
  "native c = (\<lambda>s. case c s of (Inl x, s') \<Rightarrow> (Inl (EngineError x), s') | (Inr a, s') \<Rightarrow> (Inr a, s'))"

text \<open>A comprehension \<^verbatim>\<open>[f(x) for x in xs]\<close>, evaluated left to right.\<close>

primrec for_each :: "('a \<Rightarrow> ('s, 'e, 'b) eff) \<Rightarrow> 'a list \<Rightarrow> ('s, 'e, 'b list) eff" where
  "for_each f [] = return []"
| "for_each f (x # xs) = and_then (f x) (\<lambda>y. and_then (for_each f xs) (\<lambda>ys. return (y # ys)))"

text \<open>A \<^verbatim>\<open>for\<close> loop over \<^verbatim>\<open>range(n)\<close> that updates local variables.\<close>

primrec for_loop :: "'i list \<Rightarrow> ('i \<Rightarrow> 'acc \<Rightarrow> ('s, 'e, 'acc) eff) \<Rightarrow> 'acc \<Rightarrow> ('s, 'e, 'acc) eff" where
  "for_loop [] body acc = return acc"
| "for_loop (i # is) body acc = and_then (body i acc) (\<lambda>acc'. for_loop is body acc')"

section \<open>The symbolic matrix operations the adapter uses\<close>

text \<open>
  \<^verbatim>\<open>fext[idx]\<close> with a list of positions: the entries at these positions, in the order of
  the list; a position past the end is an error. The flat vector is given by its entries.
\<close>

definition mx_getitem :: "'x list \<Rightarrow> nat list \<Rightarrow> ('s, 'e, 'x list) eff" where
  "mx_getitem fext idx =
     (if list_all (\<lambda>i. i < length fext) idx then return (map (nth fext) idx)
      else raise IndexError)"

text \<open>\<^verbatim>\<open>MX.zeros(r, c)\<close>\<close>

definition MX_zeros :: "nat \<Rightarrow> nat \<Rightarrow> ('x::zero) mx" where
  "MX_zeros r c = replicate c (replicate r 0)"

text \<open>\<^verbatim>\<open>horzcat(*ms)\<close>: the columns of the arguments side by side; the heights must agree.\<close>

definition horzcat :: "'x mx list \<Rightarrow> ('s, 'e, 'x mx) eff" where
  "horzcat ms =
     (let cs = concat ms
      in if list_all (\<lambda>c. length c = length (hd cs)) cs then return cs
         else raise DimensionError)"

text \<open>
  \<^verbatim>\<open>M[lo:hi, :] = v\<close>: rows \<open>lo\<close> to \<open>hi - 1\<close> of every column are replaced. The block
  \<open>v\<close> has the shape of the slice, or is a single entry (written to every place of the
  slice), or is a vector lying the other way; any other shape is an error.
\<close>

definition mx_set_rows :: "'x mx \<Rightarrow> nat \<Rightarrow> nat \<Rightarrow> 'x mx \<Rightarrow> ('s, 'e, 'x mx) eff" where
  "mx_set_rows M lo hi v =
     (let rr = hi - lo; cc = length M
      in if \<not> list_all (\<lambda>col. hi \<le> length col) M then raise IndexError
         else if length v = cc \<and> list_all (\<lambda>w. length w = rr) v
           then return (map (\<lambda>(col, w). take lo col @ w @ drop hi col) (zip M v))
         else if length v = 1 \<and> length (hd v) = 1
           then return (map (\<lambda>col. take lo col @ replicate rr (hd (hd v)) @ drop hi col) M)
         else if length v = rr \<and> list_all (\<lambda>w. length w = cc) v \<and> (rr = 1 \<or> cc = 1)
           then return (map (\<lambda>(col, w). take lo col @ w @ drop hi col) (zip M (transpose v)))
         else raise DimensionError)"

section \<open>The adapter: class \<^verbatim>\<open>BiorbdModel\<close>\<close>

text \<open>
  Each method is a function of the engine, the adapter object and the method's arguments.
  A parameter with a Python default (\<^verbatim>\<open>updateKin=True\<close>, \<^verbatim>\<open>fext=None\<close>) is an explicit
  argument here; a method taking \<^verbatim>\<open>*args\<close> takes the list of its arguments.
\<close>

text \<open>\<^verbatim>\<open>__init__(self, bio_model: str | biorbd.Model)\<close>\<close>

definition BiorbdModel_init ::
  "('s, 'e, 'n, 'x) engine \<Rightarrow> string + 'n \<Rightarrow> ('s, 'e, 'n BiorbdModel) eff" where
  "BiorbdModel_init E bio_model =
     (case bio_model of
        Inl path_str \<Rightarrow> and_then (native (biorbd_Model E path_str)) (\<lambda>h. return \<lparr>model = h\<rparr>)
      | Inr h \<Rightarrow> return \<lparr>model = h\<rparr>)"

definition deep_copy ::
  "('s, 'e, 'n, 'x) engine \<Rightarrow> 'n BiorbdModel \<Rightarrow> ('n, 'x) pyval list \<Rightarrow> ('s, 'e, 'n BiorbdModel) eff" where
  "deep_copy E self args =
     and_then (native (model_call E (model self) M_DeepCopy args))
       (\<lambda>h. BiorbdModel_init E (Inr h))"

text \<open>A method body \<^verbatim>\<open>return self.model.f(...)\<close>: the engine's answer as it is.\<close>

definition forwarded ::
  "('s, 'e, 'n, 'x) engine \<Rightarrow> 'n BiorbdModel \<Rightarrow> model_method \<Rightarrow> ('n, 'x) pyval list
     \<Rightarrow> ('s, 'e, ('n, 'x) pyval) eff" where
  "forwarded E self f args =
     and_then (native (model_call E (model self) f args)) (\<lambda>r. return (Native r))"

text \<open>A method body \<^verbatim>\<open>return self.model.f(...).to_mx()\<close>.\<close>

definition converted ::
  "('s, 'e, 'n, 'x) engine \<Rightarrow> 'n BiorbdModel \<Rightarrow> model_method \<Rightarrow> ('n, 'x) pyval list
     \<Rightarrow> ('s, 'e, ('n, 'x) pyval) eff" where
  "converted E self f args =
     and_then (native (model_call E (model self) f args))
       (\<lambda>r. and_then (native (obj_to_mx E r)) (\<lambda>m. return (MX m)))"

text \<open>A property body \<^verbatim>\<open>return tuple(s.to_string() for s in self.model.f())\<close>.\<close>

definition name_tuple ::
  "('s, 'e, 'n, 'x) engine \<Rightarrow> 'n BiorbdModel \<Rightarrow> names_query \<Rightarrow> ('s, 'e, string list) eff" where
  "name_tuple E self f =
     and_then (native (model_names E (model self) f))
       (\<lambda>ss. for_each (\<lambda>s. native (obj_to_string E s)) ss)"

definition gravity where
  "gravity E self = converted E self M_getGravity []"

definition set_gravity ::
  "('s, 'e, 'n, 'x) engine \<Rightarrow> 'n BiorbdModel \<Rightarrow> ('n, 'x) pyval \<Rightarrow> ('s, 'e, unit) eff" where
  "set_gravity E self newGravity = native (model_setGravity E (model self) newGravity)"

definition nb_tau :: "('s, 'e, 'n, 'x) engine \<Rightarrow> 'n BiorbdModel \<Rightarrow> ('s, 'e, nat) eff" where
  "nb_tau E self = native (model_count E (model self) nbGeneralizedTorque)"

definition nb_segments :: "('s, 'e, 'n, 'x) engine \<Rightarrow> 'n BiorbdModel \<Rightarrow> ('s, 'e, nat) eff" where
  "nb_segments E self = native (model_count E (model self) nbSegment)"

definition segment_index ::
  "('s, 'e, 'n, 'x) engine \<Rightarrow> 'n BiorbdModel \<Rightarrow> string \<Rightarrow> ('s, 'e, nat) eff" where
  "segment_index E self name = native (biorbd_segment_index E (model self) name)"

definition nb_quaternions :: "('s, 'e, 'n, 'x) engine \<Rightarrow> 'n BiorbdModel \<Rightarrow> ('s, 'e, nat) eff" where
  "nb_quaternions E self = native (model_count E (model self) nbQuat)"

definition nb_q :: "('s, 'e, 'n, 'x) engine \<Rightarrow> 'n BiorbdModel \<Rightarrow> ('s, 'e, nat) eff" where
  "nb_q E self = native (model_count E (model self) nbQ)"

definition nb_qdot :: "('s, 'e, 'n, 'x) engine \<Rightarrow> 'n BiorbdModel \<Rightarrow> ('s, 'e, nat) eff" where
  "nb_qdot E self = native (model_count E (model self) nbQdot)"

definition nb_qddot :: "('s, 'e, 'n, 'x) engine \<Rightarrow> 'n BiorbdModel \<Rightarrow> ('s, 'e, nat) eff" where
  "nb_qddot E self = native (model_count E (model self) nbQddot)"

definition nb_root :: "('s, 'e, 'n, 'x) engine \<Rightarrow> 'n BiorbdModel \<Rightarrow> ('s, 'e, nat) eff" where
  "nb_root E self = native (model_count E (model self) nbRoot)"

definition segments where
  "segments E self = forwarded E self M_segments []"

definition global_homogeneous_matrices where
  "global_homogeneous_matrices E self args = forwarded E self M_globalJCS args"

definition child_homogeneous_matrices where
  "child_homogeneous_matrices E self args = forwarded E self M_localJCS args"

definition mass where
  "mass E self = converted E self M_mass []"

definition center_of_mass where
  "center_of_mass E self q updateKin = converted E self M_CoM [q, updateKin]"

definition center_of_mass_velocity where
  "center_of_mass_velocity E self q qdot updateKin = converted E self M_CoMdot [q, qdot, updateKin]"

definition center_of_mass_acceleration where
  "center_of_mass_acceleration E self q qdot qddot updateKin =
     converted E self M_CoMddot [q, qdot, qddot, updateKin]"

definition angular_momentum where
  "angular_momentum E self Q Qdot updateKin = forwarded E self M_angularMomentum [Q, Qdot, updateKin]"

definition reshape_qdot where
  "reshape_qdot E self q qdot k_stab = converted E self M_computeQdot [q, qdot, k_stab]"

definition segment_angular_velocity where
  "segment_angular_velocity E self Q Qdot idx updateKin =
     forwarded E self M_segmentAngularVelocity [Q, Qdot, idx, updateKin]"

definition name_dof where
  "name_dof E self = name_tuple E self nameDof"

definition contact_names where
  "contact_names E self = name_tuple E self contactNames"

definition nb_soft_contacts :: "('s, 'e, 'n, 'x) engine \<Rightarrow> 'n BiorbdModel \<Rightarrow> ('s, 'e, nat) eff" where
  "nb_soft_contacts E self = native (model_count E (model self) nbSoftContacts)"

definition soft_contact_names where
  "soft_contact_names E self = name_tuple E self softContactNames"

definition soft_contact where
  "soft_contact E self args = forwarded E self M_softContact args"

definition muscle_names where
  "muscle_names E self = name_tuple E self muscleNames"

definition nb_muscles :: "('s, 'e, 'n, 'x) engine \<Rightarrow> 'n BiorbdModel \<Rightarrow> ('s, 'e, nat) eff" where
  "nb_muscles E self = native (model_count E (model self) nbMuscles)"

definition torque where
  "torque E self tau_activations q qdot = converted E self M_torque [tau_activations, q, qdot]"

definition forward_dynamics_free_floating_base where
  "forward_dynamics_free_floating_base E self q qdot qddot_joints =
     converted E self M_ForwardDynamicsFreeFloatingBase [q, qdot, qddot_joints]"

definition forward_dynamics where
  "forward_dynamics E self q qdot tau fext f_contacts =
     converted E self M_ForwardDynamics [q, qdot, tau, fext, f_contacts]"

definition constrained_forward_dynamics where
  "constrained_forward_dynamics E self args = converted E self M_ForwardDynamicsConstraintsDirect args"

definition inverse_dynamics where
  "inverse_dynamics E self q qdot qddot f_ext f_contacts =
     converted E self M_InverseDynamics [q, qdot, qddot, f_ext, f_contacts]"

definition contact_forces_from_constrained_forward_dynamics where
  "contact_forces_from_constrained_forward_dynamics E self q qdot tau fext =
     converted E self M_ContactForcesFromForwardDynamicsConstraintsDirect [q, qdot, tau, fext]"

definition qdot_from_impact where
  "qdot_from_impact E self q qdot_pre_impact =
     converted E self M_ComputeConstraintImpulsesDirect [q, qdot_pre_impact]"

definition state_set where
  "state_set E self = forwarded E self M_stateSet []"

definition muscle_activation_dot where
  "muscle_activation_dot E self muscle_states = converted E self M_activationDot [muscle_states]"

definition muscle_joint_torque where
  "muscle_joint_torque E self muscle_states q qdot =
     converted E self M_muscularJointTorque [muscle_states, q, qdot]"

text \<open>
  \<^verbatim>\<open>
  def markers(self, *args):
      if len(args) == 0:
          return self.model.markers
      else:
          return [m.to_mx() for m in self.model.markers(*args)]
  \<close>
\<close>

definition markers ::
  "('s, 'e, 'n, 'x) engine \<Rightarrow> 'n BiorbdModel \<Rightarrow> ('n, 'x) pyval list \<Rightarrow> ('s, 'e, ('n, 'x) pyval) eff" where
  "markers E self args =
     (if length args = 0 then return (BoundMethod (model self) M_markers)
      else and_then (native (model_call_vec E (model self) M_markers args))
             (\<lambda>ms. and_then (for_each (\<lambda>m. native (obj_to_mx E m)) ms)
                (\<lambda>xs. return (PyList (map MX xs)))))"

definition nb_markers :: "('s, 'e, 'n, 'x) engine \<Rightarrow> 'n BiorbdModel \<Rightarrow> ('s, 'e, nat) eff" where
  "nb_markers E self = native (model_count E (model self) nbMarkers)"

definition marker_index ::
  "('s, 'e, 'n, 'x) engine \<Rightarrow> 'n BiorbdModel \<Rightarrow> string \<Rightarrow> ('s, 'e, nat) eff" where
  "marker_index E self name = native (biorbd_marker_index E (model self) name)"

text \<open>
  \<^verbatim>\<open>
  def marker(self, *args):
      if len(args) > 1:
          return self.model.marker(*args)
      else:
          return self.model.marker
  \<close>
\<close>

definition marker ::
  "('s, 'e, 'n, 'x) engine \<Rightarrow> 'n BiorbdModel \<Rightarrow> ('n, 'x) pyval list \<Rightarrow> ('s, 'e, ('n, 'x) pyval) eff" where
  "marker E self args =
     (if length args > 1 then forwarded E self M_marker args
      else return (BoundMethod (model self) M_marker))"

definition nb_rigid_contacts :: "('s, 'e, 'n, 'x) engine \<Rightarrow> 'n BiorbdModel \<Rightarrow> ('s, 'e, nat) eff" where
  "nb_rigid_contacts E self = native (model_count E (model self) nbRigidContacts)"

definition nb_contacts :: "('s, 'e, 'n, 'x) engine \<Rightarrow> 'n BiorbdModel \<Rightarrow> ('s, 'e, nat) eff" where
  "nb_contacts E self = native (model_count E (model self) nbContacts)"

definition path where
  "path E self = forwarded E self M_path []"

text \<open>
  \<^verbatim>\<open>
  def marker_velocities(self, q, qdot, update_kin=True, reference_jcs=None):
      if reference_jcs is None:
          return horzcat(*[m.to_mx() for m in self.model.markersVelocity(q, qdot, update_kin)])
      else:
          jcs_t = (
              biorbd.RotoTrans()
              if reference_jcs is None
              else self.global_homogeneous_matrices(q, reference_jcs).transpose()
          )
      return horzcat(
          *[m.to_mx() for m in self.model.markersVelocity(q, qdot, update_kin)
            if m.applyRT(jcs_t) is None]
      )
  \<close>
  In the second comprehension the condition runs first for each marker: \<^verbatim>\<open>applyRT\<close>
  changes the marker in place, and the marker is kept (and converted, as changed) when
  the call returned \<^verbatim>\<open>None\<close>.
\<close>

definition call_transpose ::
  "('s, 'e, 'n, 'x) engine \<Rightarrow> ('n, 'x) pyval \<Rightarrow> ('s, 'e, 'n) eff" where
  "call_transpose E v = (case v of Native r \<Rightarrow> native (obj_transpose E r) | _ \<Rightarrow> raise AttributeError)"

primrec velocities_in_frame ::
  "('s, 'e, 'n, 'x) engine \<Rightarrow> 'n \<Rightarrow> 'n list \<Rightarrow> ('s, 'e, 'x mx list) eff" where
  "velocities_in_frame E jcs_t [] = return []"
| "velocities_in_frame E jcs_t (m # ms) =
     and_then (native (obj_applyRT E m jcs_t))
       (\<lambda>(m', r).
          if r = PyNone
          then and_then (native (obj_to_mx E m'))
                 (\<lambda>x. and_then (velocities_in_frame E jcs_t ms) (\<lambda>xs. return (x # xs)))
          else velocities_in_frame E jcs_t ms)"

definition marker_velocities ::
  "('s, 'e, 'n, 'x) engine \<Rightarrow> 'n BiorbdModel \<Rightarrow> ('n, 'x) pyval \<Rightarrow> ('n, 'x) pyval \<Rightarrow> ('n, 'x) pyval
     \<Rightarrow> ('n, 'x) pyval \<Rightarrow> ('s, 'e, ('n, 'x) pyval) eff" where
  "marker_velocities E self q qdot update_kin reference_jcs =
     (if reference_jcs = PyNone
      then and_then (native (model_call_vec E (model self) M_markersVelocity [q, qdot, update_kin]))
             (\<lambda>ms. and_then (for_each (\<lambda>m. native (obj_to_mx E m)) ms)
                (\<lambda>xs. and_then (horzcat xs) (\<lambda>h. return (MX h))))
      else and_then
             (if reference_jcs = PyNone then native (biorbd_RotoTrans E)
              else and_then (global_homogeneous_matrices E self [q, reference_jcs])
                     (\<lambda>jcs. call_transpose E jcs))
             (\<lambda>jcs_t.
                and_then (native (model_call_vec E (model self) M_markersVelocity [q, qdot, update_kin]))
                  (\<lambda>ms. and_then (velocities_in_frame E jcs_t ms)
                     (\<lambda>xs. and_then (horzcat xs) (\<lambda>h. return (MX h))))))"

text \<open>
  \<^verbatim>\<open>
  def tau_max(self, *args):
      torque_max, torque_min = self.model.torqueMax(*args)
      return torque_max.to_mx(), torque_min.to_mx()
  \<close>
\<close>

definition tau_max ::
  "('s, 'e, 'n, 'x) engine \<Rightarrow> 'n BiorbdModel \<Rightarrow> ('n, 'x) pyval list \<Rightarrow> ('s, 'e, ('n, 'x) pyval) eff" where
  "tau_max E self args =
     and_then (native (model_call_pair E (model self) M_torqueMax args))
       (\<lambda>(torque_max, torque_min).
          and_then (native (obj_to_mx E torque_max))
            (\<lambda>a. and_then (native (obj_to_mx E torque_min))
               (\<lambda>b. return (PyTuple [MX a, MX b]))))"

definition rigid_contact_acceleration where
  "rigid_contact_acceleration E self q qdot qddot idx updateKin =
     converted E self M_rigidContactAcceleration [q, qdot, qddot, idx, updateKin]"

definition object_homogeneous_matrix where
  "object_homogeneous_matrix E self args = forwarded E self M_RT args"

definition nb_dof :: "('s, 'e, 'n, 'x) engine \<Rightarrow> 'n BiorbdModel \<Rightarrow> ('s, 'e, nat) eff" where
  "nb_dof E self = native (model_count E (model self) nbDof)"

definition marker_names where
  "marker_names E self = name_tuple E self markerNames"

text \<open>
  \<^verbatim>\<open>
  def soft_contact_forces(self, q, qdot):
      soft_contact_forces = MX.zeros(self.nb_soft_contacts * 6, 1)
      for i_sc in range(self.nb_soft_contacts):
          soft_contact = self.soft_contact(i_sc)
          soft_contact_forces[i_sc * 6 : (i_sc + 1) * 6, :] = (
              biorbd.SoftContactSphere(soft_contact).computeForceAtOrigin(self.model, q, qdot).to_mx()
          )
      return soft_contact_forces
  \<close>
\<close>

definition force_at_origin ::
  "('s, 'e, 'n, 'x) engine \<Rightarrow> 'n BiorbdModel \<Rightarrow> ('n, 'x) pyval \<Rightarrow> ('n, 'x) pyval \<Rightarrow> nat
     \<Rightarrow> ('s, 'e, 'x mx) eff" where
  "force_at_origin E self q qdot i_sc =
     and_then (soft_contact E self [PyInt (int i_sc)])
       (\<lambda>soft_contact.
          and_then (native (biorbd_SoftContactSphere E soft_contact))
            (\<lambda>sphere. and_then (native (obj_computeForceAtOrigin E sphere (model self) q qdot))
               (\<lambda>w. native (obj_to_mx E w))))"

definition soft_contact_forces ::
  "('s, 'e, 'n, 'x) engine \<Rightarrow> 'n BiorbdModel \<Rightarrow> ('n, 'x) pyval \<Rightarrow> ('n, 'x) pyval
     \<Rightarrow> ('s, 'e, ('n, 'x::zero) pyval) eff" where
  "soft_contact_forces E self q qdot =
     and_then (nb_soft_contacts E self)
       (\<lambda>n0. and_then (nb_soft_contacts E self)
          (\<lambda>n. and_then
             (for_loop [0..<n]
                (\<lambda>i_sc forces. and_then (force_at_origin E self q qdot i_sc)
                   (\<lambda>w. mx_set_rows forces (i_sc * 6) ((i_sc + 1) * 6) w))
                (MX_zeros (n0 * 6) 1))
             (\<lambda>forces. return (MX forces))))"

text \<open>
  \<^verbatim>\<open>
  def reshape_fext_to_fcontact(self, fext):
      count = 0
      f_contact_vec = biorbd.VecBiorbdVector()
      for ii in range(self.nb_rigid_contacts):
          n_f_contact = len(self.model.rigidContactAxisIdx(ii))
          idx = [i + count for i in range(n_f_contact)]
          f_contact_vec.append(fext[idx])
          count = count + n_f_contact
      return f_contact_vec
  \<close>
  The native vector of vectors is the list of the vectors appended to it.
\<close>

definition reshape_fext_to_fcontact ::
  "('s, 'e, 'n, 'x) engine \<Rightarrow> 'n BiorbdModel \<Rightarrow> 'x list \<Rightarrow> ('s, 'e, 'x list list) eff" where
  "reshape_fext_to_fcontact E self fext =
     and_then (nb_rigid_contacts E self)
       (\<lambda>n. and_then
          (for_loop [0..<n]
             (\<lambda>ii (count, f_contact_vec).
                and_then (native (model_rigidContactAxisIdx E (model self) ii))
                  (\<lambda>axes.
                     let n_f_contact = length axes;
                         idx = map (\<lambda>i. i + count) [0..<n_f_contact]
                     in and_then (mx_getitem fext idx)
                          (\<lambda>sub. return (count + n_f_contact, f_contact_vec @ [sub]))))
             (0, []))
          (\<lambda>(count, f_contact_vec). return f_contact_vec))"

section \<open>Auxiliary notions for the statements\<close>

text \<open>A computation that returns \<open>a\<close> from every state of the engine.\<close>

definition yields :: "('s \<Rightarrow> ('a + 'b) \<times> 's) \<Rightarrow> 'b \<Rightarrow> bool" where
  "yields m a = (\<forall>s. fst (m s) = Inr a)"


text \<open>Cutting a list into consecutive blocks of given lengths.\<close>

primrec blocks :: "nat list \<Rightarrow> 'a list \<Rightarrow> 'a list list" where
  "blocks [] xs = []"
| "blocks (k # ks) xs = take k xs # blocks ks (drop k xs)"


section \<open>A small engine to run the adapter on\<close>

text \<open>
  A model with two degrees of freedom, two markers, two rigid contacts (with two axes and
  one axis) and two soft contacts. Its state counts the kinematics updates; the frame it
  reports is the identity, so \<^verbatim>\<open>applyRT\<close> with it leaves a marker as it was.
\<close>

datatype demo_obj =
    DemoModel | DemoString string | DemoVector "int list" | DemoFrame
  | DemoContact nat | DemoSphere nat

definition demo_count :: "count_query \<Rightarrow> nat" where
  "demo_count c =
     (case c of nbQ \<Rightarrow> 2 | nbQdot \<Rightarrow> 2 | nbQddot \<Rightarrow> 2 | nbGeneralizedTorque \<Rightarrow> 2 | nbDof \<Rightarrow> 2
      | nbQuat \<Rightarrow> 0 | nbRoot \<Rightarrow> 0 | nbSegment \<Rightarrow> 2 | nbMarkers \<Rightarrow> 2 | nbMuscles \<Rightarrow> 0
      | nbContacts \<Rightarrow> 3 | nbRigidContacts \<Rightarrow> 2 | nbSoftContacts \<Rightarrow> 2)"

definition demo_names :: "names_query \<Rightarrow> string list" where
  "demo_names f =
     (case f of nameDof \<Rightarrow> [''Seg0_TransY'', ''Seg1_RotX'']
      | markerNames \<Rightarrow> [''hip'', ''toe'']
      | contactNames \<Rightarrow> [''heel_Y'', ''heel_Z'', ''toe_Z'']
      | softContactNames \<Rightarrow> [''ball0'', ''ball1'']
      | muscleNames \<Rightarrow> [])"

primrec first_index :: "'a list \<Rightarrow> 'a \<Rightarrow> nat option" where
  "first_index [] y = None"
| "first_index (x # xs) y = (if x = y then Some 0 else map_option Suc (first_index xs y))"

definition demo_engine :: "(nat, string, demo_obj, int) engine" where
  "demo_engine =
     \<lparr> biorbd_Model = (\<lambda>p s. if p = ''pendulum.bioMod'' then (Inr DemoModel, s)
                              else (Inl ''cannot open file'', s)),
       biorbd_segment_index = (\<lambda>h name s.
          case first_index [''Seg0'', ''Seg1''] name of
            Some i \<Rightarrow> (Inr i, s) | None \<Rightarrow> (Inl ''no such segment'', s)),
       biorbd_marker_index = (\<lambda>h name s.
          case first_index (demo_names markerNames) name of
            Some i \<Rightarrow> (Inr i, s) | None \<Rightarrow> (Inl ''no such marker'', s)),
       biorbd_RotoTrans = (\<lambda>s. (Inr DemoFrame, s)),
       biorbd_SoftContactSphere = (\<lambda>v s.
          case v of Native (DemoContact i) \<Rightarrow> (Inr (DemoSphere i), s)
          | _ \<Rightarrow> (Inl ''not a soft contact'', s)),
       model_count = (\<lambda>h c s. (Inr (demo_count c), s)),
       model_names = (\<lambda>h f s. (Inr (map DemoString (demo_names f)), s)),
       model_call = (\<lambda>h f args s.
          if f = M_softContact
          then (case args of [PyInt i] \<Rightarrow> (Inr (DemoContact (nat i)), s)
                | _ \<Rightarrow> (Inl ''bad arguments'', s))
          else if f = M_globalJCS then (Inr DemoFrame, Suc s)
          else if f = M_DeepCopy then (Inr DemoModel, s)
          else if f = M_CoM \<and> take 1 args = [PyNone] then (Inl ''wrong dimensions'', s)
          else (Inr (DemoVector [0, 0, 1]), Suc s)),
       model_call_vec = (\<lambda>h f args s. (Inr [DemoVector [1, 0, 0], DemoVector [0, 2, 0]], Suc s)),
       model_call_pair = (\<lambda>h f args s. (Inr (DemoVector [5, 5], DemoVector [- 5, - 5]), s)),
       model_setGravity = (\<lambda>h g s. (Inr (), Suc s)),
       model_rigidContactAxisIdx = (\<lambda>h i s. (Inr (if i = 0 then [0, 1] else [2]), s)),
       obj_to_mx = (\<lambda>n s. case n of DemoVector v \<Rightarrow> (Inr [v], s) | _ \<Rightarrow> (Inl ''no matrix form'', s)),
       obj_to_string = (\<lambda>n s. case n of DemoString t \<Rightarrow> (Inr t, s) | _ \<Rightarrow> (Inl ''no string form'', s)),
       obj_transpose = (\<lambda>n s. (Inr n, s)),
       obj_applyRT = (\<lambda>m rt s. (Inr (m, PyNone), s)),
       obj_computeForceAtOrigin = (\<lambda>sphere h q qdot s.
          case sphere of DemoSphere i \<Rightarrow> (Inr (DemoVector [int i, 0, 0, 0, 0, 1]), Suc s)
          | _ \<Rightarrow> (Inl ''not a sphere'', s)) \<rparr>"

definition demo_self :: "demo_obj BiorbdModel" where
  "demo_self = \<lparr>model = DemoModel\<rparr>"



text \<open>
  The small engine with a kinematics cache. Its state is the configuration the cached
  kinematics belong to: \<^verbatim>\<open>globalJCS(q, \<dots>)\<close> refreshes it to \<open>q\<close>, and so does
  \<^verbatim>\<open>markersVelocity(q, qdot, True)\<close>, while \<^verbatim>\<open>markersVelocity(q, qdot, False)\<close> answers from
  the cache as it stands.
\<close>

definition cache_engine :: "(nat, string, demo_obj, int) engine" where
  "cache_engine =
     demo_engine
       \<lparr> model_call := (\<lambda>h f args s.
            if f = M_globalJCS
            then (case args of PyInt v # rest \<Rightarrow> (Inr DemoFrame, nat v) | _ \<Rightarrow> (Inr DemoFrame, s))
            else model_call demo_engine h f args s),
         model_call_vec := (\<lambda>h f args s.
            case args of
              [PyInt v, qdot, PyBool True] \<Rightarrow> (Inr [DemoVector [v, 0, 0]], nat v)
            | _ \<Rightarrow> (Inr [DemoVector [int s, 0, 0]], s)) \<rparr>"



text \<open>The small engine with count queries that move its state and answer by it.\<close>

definition ticking_engine :: "(nat, string, demo_obj, int) engine" where
  "ticking_engine =
     demo_engine \<lparr> model_count := (\<lambda>h c s. (Inr (demo_count c + s), Suc s)) \<rparr>"

text \<open>The small engine with its soft contacts removed.\<close>

definition demo_engine_no_soft :: "(nat, string, demo_obj, int) engine" where
  "demo_engine_no_soft =
     demo_engine \<lparr> model_count :=
       (\<lambda>h c s. (Inr (if c = nbSoftContacts then 0 else demo_count c), s)) \<rparr>"

text \<open>
  What the framework takes for a result: a symbolic matrix, or a list or tuple of them.
\<close>

fun is_MX :: "('n, 'x) pyval \<Rightarrow> bool" where
  "is_MX (MX m) = True"
| "is_MX _ = False"

definition boundary_MX :: "('n, 'x) pyval \<Rightarrow> bool" where
  "boundary_MX v =
     (case v of MX m \<Rightarrow> True | PyList vs \<Rightarrow> list_all is_MX vs | PyTuple vs \<Rightarrow> list_all is_MX vs
      | _ \<Rightarrow> False)"

text \<open>A tuple of exactly two symbolic matrices; a list of symbolic matrices.\<close>

definition is_MX_pair :: "('n, 'x) pyval \<Rightarrow> bool" where
  "is_MX_pair v = (case v of PyTuple [MX x, MX y] \<Rightarrow> True | _ \<Rightarrow> False)"

definition is_MX_list :: "('n, 'x) pyval \<Rightarrow> bool" where
  "is_MX_list v = (case v of PyList vs \<Rightarrow> list_all is_MX vs | _ \<Rightarrow> False)"

text \<open>Every value a computation returns satisfies \<open>P\<close> (it may also raise).\<close>

definition returns :: "('a \<Rightarrow> bool) \<Rightarrow> ('s \<Rightarrow> ('e + 'a) \<times> 's) \<Rightarrow> bool" where
  "returns P m = (\<forall>s. case fst (m s) of Inl err \<Rightarrow> True | Inr v \<Rightarrow> P v)"

section \<open>Observing the engine's failures\<close>

text \<open>
  To state what becomes of an engine failure, the engine is run with a log beside its
  state: every entry point notes the error it raises, and nothing else. The adapter is the
  same code on either engine.
\<close>

definition logged :: "('s, 'e, 'a) native \<Rightarrow> ('s \<times> 'e list, 'e, 'a) native" where
  "logged c =
     (\<lambda>(s, log). case c s of
        (Inl x, s') \<Rightarrow> (Inl x, (s', log @ [x]))
      | (Inr a, s') \<Rightarrow> (Inr a, (s', log)))"

definition instrumented :: "('s, 'e, 'n, 'x) engine \<Rightarrow> ('s \<times> 'e list, 'e, 'n, 'x) engine" where
  "instrumented E =
     \<lparr> biorbd_Model = (\<lambda>p. logged (biorbd_Model E p)),
       biorbd_segment_index = (\<lambda>h name. logged (biorbd_segment_index E h name)),
       biorbd_marker_index = (\<lambda>h name. logged (biorbd_marker_index E h name)),
       biorbd_RotoTrans = logged (biorbd_RotoTrans E),
       biorbd_SoftContactSphere = (\<lambda>v. logged (biorbd_SoftContactSphere E v)),
       model_count = (\<lambda>h c. logged (model_count E h c)),
       model_names = (\<lambda>h f. logged (model_names E h f)),
       model_call = (\<lambda>h f args. logged (model_call E h f args)),
       model_call_vec = (\<lambda>h f args. logged (model_call_vec E h f args)),
       model_call_pair = (\<lambda>h f args. logged (model_call_pair E h f args)),
       model_setGravity = (\<lambda>h g. logged (model_setGravity E h g)),
       model_rigidContactAxisIdx = (\<lambda>h i. logged (model_rigidContactAxisIdx E h i)),
       obj_to_mx = (\<lambda>n. logged (obj_to_mx E n)),
       obj_to_string = (\<lambda>n. logged (obj_to_string E n)),
       obj_transpose = (\<lambda>n. logged (obj_transpose E n)),
       obj_applyRT = (\<lambda>m rt. logged (obj_applyRT E m rt)),
       obj_computeForceAtOrigin = (\<lambda>sp h q qdot. logged (obj_computeForceAtOrigin E sp h q qdot)) \<rparr>"

text \<open>The engine errors a result accounts for: the one it carries, if it carries one.\<close>

definition raised_by_engine :: "'e error + 'a \<Rightarrow> 'e list" where
  "raised_by_engine r = (case r of Inl (EngineError x) \<Rightarrow> [x] | _ \<Rightarrow> [])"

text \<open>
  \<open>traced m' m\<close>: the run \<open>m'\<close> on the logging engine does what the run \<open>m\<close> does on the
  engine itself, and the errors the engine raised during it are those the result accounts
  for: none when the method returns or fails on the Python side, the one error the result
  carries when it fails with an engine error.
\<close>

definition traced :: "('s \<times> 'e list, 'e, 'a) eff \<Rightarrow> ('s, 'e, 'a) eff \<Rightarrow> bool" where
  "traced m' m =
     (\<forall>s log. case m' (s, log) of
        (r, (s', log')) \<Rightarrow> m s = (r, s') \<and> log' = log @ raised_by_engine r)"

text \<open>
  A method that fails with errors of the engine only: whatever the state, its result is a
  value or an \<^const>\<open>EngineError\<close>, never an error of the Python side.
\<close>

definition engine_failures_only :: "('s, 'e, 'a) eff \<Rightarrow> bool" where
  "engine_failures_only m =
     (\<forall>s. case fst (m s) of Inl (EngineError x) \<Rightarrow> True | Inl other \<Rightarrow> False | Inr a \<Rightarrow> True)"


section \<open>Observing the engine's calls\<close>

text \<open>
  To state which entry points of the engine a method uses, the engine is run with a list of
  the calls made beside its state: every entry point notes itself, and nothing else.
\<close>

datatype engine_call =
    CountCall count_query | NamesCall names_query | MethodCall model_method
  | HelperCall | ObjectCall

definition noting :: "engine_call \<Rightarrow> ('s, 'e, 'a) native \<Rightarrow> ('s \<times> engine_call list, 'e, 'a) native" where
  "noting c m = (\<lambda>(s, calls). case m s of (r, s') \<Rightarrow> (r, (s', calls @ [c])))"

definition call_logged :: "('s, 'e, 'n, 'x) engine \<Rightarrow> ('s \<times> engine_call list, 'e, 'n, 'x) engine" where
  "call_logged E =
     \<lparr> biorbd_Model = (\<lambda>p. noting HelperCall (biorbd_Model E p)),
       biorbd_segment_index = (\<lambda>h name. noting HelperCall (biorbd_segment_index E h name)),
       biorbd_marker_index = (\<lambda>h name. noting HelperCall (biorbd_marker_index E h name)),
       biorbd_RotoTrans = noting HelperCall (biorbd_RotoTrans E),
       biorbd_SoftContactSphere = (\<lambda>v. noting HelperCall (biorbd_SoftContactSphere E v)),
       model_count = (\<lambda>h c. noting (CountCall c) (model_count E h c)),
       model_names = (\<lambda>h f. noting (NamesCall f) (model_names E h f)),
       model_call = (\<lambda>h f args. noting (MethodCall f) (model_call E h f args)),
       model_call_vec = (\<lambda>h f args. noting (MethodCall f) (model_call_vec E h f args)),
       model_call_pair = (\<lambda>h f args. noting (MethodCall f) (model_call_pair E h f args)),
       model_setGravity = (\<lambda>h g. noting ObjectCall (model_setGravity E h g)),
       model_rigidContactAxisIdx = (\<lambda>h i. noting ObjectCall (model_rigidContactAxisIdx E h i)),
       obj_to_mx = (\<lambda>n. noting ObjectCall (obj_to_mx E n)),
       obj_to_string = (\<lambda>n. noting ObjectCall (obj_to_string E n)),
       obj_transpose = (\<lambda>n. noting ObjectCall (obj_transpose E n)),
       obj_applyRT = (\<lambda>m rt. noting ObjectCall (obj_applyRT E m rt)),
       obj_computeForceAtOrigin = (\<lambda>sp h q qdot. noting ObjectCall (obj_computeForceAtOrigin E sp h q qdot)) \<rparr>"


text \<open>
  A pure read: the computation leaves every state as it was and answers alike in every
  state.
\<close>

definition pure_read :: "('s \<Rightarrow> 'r \<times> 's) \<Rightarrow> bool" where
  "pure_read m = (\<forall>s s'. snd (m s) = s \<and> fst (m s') = fst (m s))"


section \<open>Reshaping a flat force vector\<close>

lemma yields_return: "yields (return a) a"
  by (simp add: yields_def return_def)

lemma yields_and_then: "yields m a \<Longrightarrow> yields (f a) b \<Longrightarrow> yields (and_then m f) b"
  unfolding yields_def and_then_def
proof (intro allI)
  fix s
  assume m: "\<forall>s. fst (m s) = Inr a" and f: "\<forall>s. fst (f a s) = Inr b"
  obtain r s' where ms: "m s = (r, s')" by (cases "m s")
  with m have "r = Inr a" by (metis fst_conv)
  with ms f show "fst (case m s of (Inl x, s') \<Rightarrow> (Inl x, s') | (Inr a, s') \<Rightarrow> f a s') = Inr b"
    by simp
qed

lemma yields_native: "(\<And>s. fst (c s) = Inr a) \<Longrightarrow> yields (native c) a"
  unfolding yields_def native_def
proof (intro allI)
  fix s
  assume c: "\<And>s. fst (c s) = Inr a"
  obtain r s' where cs: "c s = (r, s')" by (cases "c s")
  with c[of s] have "r = Inr a" by simp
  with cs show "fst (case c s of (Inl x, s') \<Rightarrow> (Inl (EngineError x), s') | (Inr a, s') \<Rightarrow> (Inr a, s')) = Inr a"
    by simp
qed

lemma yieldsD: "yields m a \<Longrightarrow> fst (m s) = Inr a"
  by (simp add: yields_def)

lemma nth_shifted_range:
  "count + k \<le> length xs \<Longrightarrow> map (nth xs) (map (\<lambda>i. i + count) [0..<k]) = take k (drop count xs)"
  by (rule nth_equalityI) (auto simp: add.commute)

lemma yields_mx_getitem:
  "count + k \<le> length fext \<Longrightarrow>
   yields (mx_getitem fext (map (\<lambda>i. i + count) [0..<k])) (take k (drop count fext))"
  using nth_shifted_range[of count k fext]
  by (simp add: mx_getitem_def list_all_iff yields_return del: map_map)

lemma reshape_loop:
  assumes ax: "\<And>i s. i \<in> set ixs \<Longrightarrow> fst (model_rigidContactAxisIdx E h i s) = Inr (axes i)"
    and len: "count + sum_list (map (\<lambda>i. length (axes i)) ixs) \<le> length fext"
  shows "yields
     (for_loop ixs
        (\<lambda>ii (count, f_contact_vec).
           and_then (native (model_rigidContactAxisIdx E h ii))
             (\<lambda>axes.
                let n_f_contact = length axes;
                    idx = map (\<lambda>i. i + count) [0..<n_f_contact]
                in and_then (mx_getitem fext idx)
                     (\<lambda>sub. return (count + n_f_contact, f_contact_vec @ [sub]))))
        (count, vec))
     (count + sum_list (map (\<lambda>i. length (axes i)) ixs),
      vec @ blocks (map (\<lambda>i. length (axes i)) ixs) (drop count fext))"
  using assms
proof (induction ixs arbitrary: count vec)
  case Nil
  then show ?case by (simp add: yields_return)
next
  case (Cons i ixs)
  have step: "yields (and_then (native (model_rigidContactAxisIdx E h i))
             (\<lambda>axes.
                let n_f_contact = length axes;
                    idx = map (\<lambda>i. i + count) [0..<n_f_contact]
                in and_then (mx_getitem fext idx)
                     (\<lambda>sub. return (count + n_f_contact, vec @ [sub]))))
          (count + length (axes i), vec @ [take (length (axes i)) (drop count fext)])"
    apply (rule yields_and_then[where a="axes i"])
     apply (rule yields_native)
     apply (rule Cons.prems(1))
     apply simp
    apply (simp add: Let_def)
    apply (rule yields_and_then[OF yields_mx_getitem])
    using Cons.prems(2) apply simp
    apply (rule yields_return)
    done
  have rest: "yields (for_loop ixs
        (\<lambda>ii (count, f_contact_vec).
           and_then (native (model_rigidContactAxisIdx E h ii))
             (\<lambda>axes.
                let n_f_contact = length axes;
                    idx = map (\<lambda>i. i + count) [0..<n_f_contact]
                in and_then (mx_getitem fext idx)
                     (\<lambda>sub. return (count + n_f_contact, f_contact_vec @ [sub]))))
        (count + length (axes i), vec @ [take (length (axes i)) (drop count fext)]))
     (count + length (axes i) + sum_list (map (\<lambda>i. length (axes i)) ixs),
      (vec @ [take (length (axes i)) (drop count fext)]) @ blocks (map (\<lambda>i. length (axes i)) ixs) (drop (count + length (axes i)) fext))"
    apply (rule Cons.IH)
    using Cons.prems by auto
  show ?case
    apply (simp only: for_loop.simps)
    apply (rule yields_and_then)
     apply (simp only: prod.case)
     apply (rule step)
    using rest by (simp add: add.assoc add.commute)
qed

lemma concat_blocks: "concat (blocks ks xs) = take (sum_list ks) xs"
  by (induction ks arbitrary: xs) (simp_all add: take_add)

lemma length_blocks: "length (blocks ks xs) = length ks"
  by (induction ks arbitrary: xs) simp_all

lemma nth_blocks:
  "i < length ks \<Longrightarrow> blocks ks xs ! i = take (ks ! i) (drop (sum_list (take i ks)) xs)"
proof (induction ks arbitrary: xs i)
  case Nil
  then show ?case by simp
next
  case (Cons k ks)
  then show ?case by (cases i) (simp_all add: add.commute)
qed

lemma sum_list_upt_conv: "sum_list (map f [0..<n]) = (\<Sum>i<n. f i)"
  by (simp add: sum_list_sum_nth atLeast0LessThan)

lemma reshape_yields:
  assumes nb: "\<And>s. fst (model_count E (model self) nbRigidContacts s) = Inr n"
    and ax: "\<And>i s. i < n \<Longrightarrow> fst (model_rigidContactAxisIdx E (model self) i s) = Inr (axes i)"
    and len: "(\<Sum>i<n. length (axes i)) \<le> length fext"
  shows "yields (reshape_fext_to_fcontact E self fext)
           (blocks (map (\<lambda>i. length (axes i)) [0..<n]) fext)"
proof -
  have loop: "yields
     (for_loop [0..<n]
        (\<lambda>ii (count, f_contact_vec).
           and_then (native (model_rigidContactAxisIdx E (model self) ii))
             (\<lambda>axes.
                let n_f_contact = length axes;
                    idx = map (\<lambda>i. i + count) [0..<n_f_contact]
                in and_then (mx_getitem fext idx)
                     (\<lambda>sub. return (count + n_f_contact, f_contact_vec @ [sub]))))
        (0, []))
     (0 + sum_list (map (\<lambda>i. length (axes i)) [0..<n]),
      [] @ blocks (map (\<lambda>i. length (axes i)) [0..<n]) (drop 0 fext))"
    by (rule reshape_loop) (use ax len in \<open>simp_all add: sum_list_upt_conv\<close>)
  show ?thesis
    unfolding reshape_fext_to_fcontact_def nb_rigid_contacts_def
    apply (rule yields_and_then[OF yields_native, OF nb])
    apply (rule yields_and_then[OF loop])
    apply (simp add: yields_return)
    done
qed

text \<open>
  Claim C1. On an engine that reports \<open>n\<close> rigid contacts and, for contact \<open>i\<close>, the axes
  \<open>axes i\<close>, and for a flat vector \<open>fext\<close> as long as the sum of the axis counts,
  \<^const>\<open>reshape_fext_to_fcontact\<close> returns one sub-vector per contact, in the order of the
  contacts; sub-vector \<open>i\<close> has as many entries as contact \<open>i\<close> has axes and is the slice of
  \<open>fext\<close> that starts where the slice of contact \<open>i - 1\<close> ended; put end to end the
  sub-vectors are \<open>fext\<close>.
\<close>

theorem reshape_fext_to_fcontact_partition:
  assumes nb: "\<And>s. fst (model_count E (model self) nbRigidContacts s) = Inr n"
    and ax: "\<And>i s. i < n \<Longrightarrow> fst (model_rigidContactAxisIdx E (model self) i s) = Inr (axes i)"
    and len: "length fext = (\<Sum>i<n. length (axes i))"
  shows "\<exists>segs. fst (reshape_fext_to_fcontact E self fext s) = Inr segs
           \<and> length segs = n
           \<and> (\<forall>i<n. length (segs ! i) = length (axes i))
           \<and> (\<forall>i<n. segs ! i = take (length (axes i)) (drop (\<Sum>j<i. length (axes j)) fext))
           \<and> concat segs = fext"
proof -
  let ?ks = "map (\<lambda>i. length (axes i)) [0..<n]"
  let ?segs = "blocks ?ks fext"
  have total: "sum_list ?ks = length fext"
    by (simp add: sum_list_upt_conv len)
  have run: "fst (reshape_fext_to_fcontact E self fext s) = Inr ?segs"
    by (rule yieldsD[OF reshape_yields[OF nb ax]]) (simp_all add: len)
  have offs: "sum_list (take i ?ks) = (\<Sum>j<i. length (axes j))" if "i < n" for i
  proof -
    have "take i ?ks = map (\<lambda>i. length (axes i)) [0..<i]"
      using that by (simp add: take_map)
    then show ?thesis by (simp add: sum_list_upt_conv)
  qed
  have nth: "?segs ! i = take (length (axes i)) (drop (\<Sum>j<i. length (axes j)) fext)" if "i < n" for i
    using that nth_blocks[of i ?ks fext] offs[OF that] by simp
  have bound: "(\<Sum>j<i. length (axes j)) + length (axes i) \<le> length fext" if "i < n" for i
  proof -
    have "(\<Sum>j<i. length (axes j)) + length (axes i) = (\<Sum>j<Suc i. length (axes j))" by simp
    also have "\<dots> \<le> (\<Sum>j<n. length (axes j))"
      by (rule sum_mono2) (use that in auto)
    finally show ?thesis by (simp add: len)
  qed
  have lens: "length (?segs ! i) = length (axes i)" if "i < n" for i
    using nth[OF that] bound[OF that] by simp
  show ?thesis
    using run nth lens total by (intro exI[of _ ?segs]) (simp add: length_blocks concat_blocks)
qed

theorem reshape_fext_to_fcontact_partition_witness:
  "(\<forall>s. fst (model_count demo_engine (model demo_self) nbRigidContacts s) = Inr 2)
   \<and> (\<forall>s. fst (model_rigidContactAxisIdx demo_engine (model demo_self) 0 s) = Inr [0, 1])
   \<and> (\<forall>s. fst (model_rigidContactAxisIdx demo_engine (model demo_self) 1 s) = Inr [2])
   \<and> (\<exists>segs. fst (reshape_fext_to_fcontact demo_engine demo_self [10, 20, 30] 0) = Inr segs
         \<and> length segs = 2 \<and> segs ! 0 = [10, 20] \<and> segs ! 1 = [30]
         \<and> concat segs = [10, 20, 30])"
proof -
  have nb: "\<And>s. fst (model_count demo_engine (model demo_self) nbRigidContacts s) = Inr 2"
    by (simp add: demo_engine_def demo_count_def)
  have ax: "\<And>i s. i < 2 \<Longrightarrow> fst (model_rigidContactAxisIdx demo_engine (model demo_self) i s)
                        = Inr (if i = 0 then [0, 1] else [2])"
    by (simp add: demo_engine_def)
  have len: "length [10, 20, 30 :: int] = (\<Sum>i<(2::nat). length (if i = 0 then [0, 1] else [2 :: nat]))"
    by (simp add: numeral_2_eq_2 lessThan_Suc)
  have two: "(\<forall>i<2. P i) = (P 0 \<and> P (Suc 0))" for P :: "nat \<Rightarrow> bool"
    by (auto simp: numeral_2_eq_2 less_Suc_eq)
  show ?thesis
    using nb ax [of 0] ax [of 1]
      reshape_fext_to_fcontact_partition [of demo_engine demo_self 2
        "\<lambda>i. if i = 0 then [0, 1] else [2]" "[10, 20, 30]" 0, OF nb ax len]
    by (auto simp: two)
qed

lemma blocks_append: "sum_list ks \<le> length xs \<Longrightarrow> blocks ks (xs @ tail) = blocks ks xs"
  by (induction ks arbitrary: xs) simp_all

text \<open>
  Claim C10. The length of the vector is not checked: the positions read are those below
  the sum of the axis counts, so whatever follows them (\<open>tail\<close>) changes neither the
  success of the call nor its result.
\<close>

theorem reshape_fext_to_fcontact_ignores_tail:
  assumes nb: "\<And>s. fst (model_count E (model self) nbRigidContacts s) = Inr n"
    and ax: "\<And>i s. i < n \<Longrightarrow> fst (model_rigidContactAxisIdx E (model self) i s) = Inr (axes i)"
    and len: "length fext = (\<Sum>i<n. length (axes i))"
  shows "\<exists>segs. fst (reshape_fext_to_fcontact E self (fext @ tail) s) = Inr segs
           \<and> fst (reshape_fext_to_fcontact E self fext s) = Inr segs
           \<and> concat segs = fext"
proof -
  let ?ks = "map (\<lambda>i. length (axes i)) [0..<n]"
  have total: "sum_list ?ks = length fext"
    by (simp add: sum_list_upt_conv len)
  have long: "fst (reshape_fext_to_fcontact E self (fext @ tail) s) = Inr (blocks ?ks (fext @ tail))"
    by (rule yieldsD[OF reshape_yields[OF nb ax]]) (simp_all add: len)
  have short: "fst (reshape_fext_to_fcontact E self fext s) = Inr (blocks ?ks fext)"
    by (rule yieldsD[OF reshape_yields[OF nb ax]]) (simp_all add: len)
  have same: "blocks ?ks (fext @ tail) = blocks ?ks fext"
    by (rule blocks_append) (simp add: total)
  show ?thesis
    using long short same total by (intro exI[of _ "blocks ?ks fext"]) (simp add: concat_blocks)
qed

theorem reshape_fext_to_fcontact_ignores_tail_witness:
  "(\<forall>s. fst (model_count demo_engine (model demo_self) nbRigidContacts s) = Inr 2)
   \<and> (\<forall>s. fst (model_rigidContactAxisIdx demo_engine (model demo_self) 0 s) = Inr [0, 1])
   \<and> (\<forall>s. fst (model_rigidContactAxisIdx demo_engine (model demo_self) 1 s) = Inr [2])
   \<and> (\<exists>segs. fst (reshape_fext_to_fcontact demo_engine demo_self ([10, 20, 30] @ [40, 50]) 0) = Inr segs
         \<and> fst (reshape_fext_to_fcontact demo_engine demo_self [10, 20, 30] 0) = Inr segs
         \<and> concat segs = [10, 20, 30])"
proof -
  have nb: "\<And>s. fst (model_count demo_engine (model demo_self) nbRigidContacts s) = Inr 2"
    by (simp add: demo_engine_def demo_count_def)
  have ax: "\<And>i s. i < 2 \<Longrightarrow> fst (model_rigidContactAxisIdx demo_engine (model demo_self) i s)
                        = Inr (if i = 0 then [0, 1] else [2])"
    by (simp add: demo_engine_def)
  have len: "length [10, 20, 30 :: int] = (\<Sum>i<(2::nat). length (if i = 0 then [0, 1] else [2 :: nat]))"
    by (simp add: numeral_2_eq_2 lessThan_Suc)
  show ?thesis
    using nb ax [of 0] ax [of 1]
      reshape_fext_to_fcontact_ignores_tail [of demo_engine demo_self 2
        "\<lambda>i. if i = 0 then [0, 1] else [2]" "[10, 20, 30]" "[40, 50]" 0, OF nb ax len]
    by auto
qed

text \<open>The same on the small engine, by running the method.\<close>

lemma demo_reshape_value:
  "fst (reshape_fext_to_fcontact demo_engine demo_self [10, 20, 30, 40] 7) = Inr [[10, 20], [30]]"
  by (simp add: reshape_fext_to_fcontact_def nb_rigid_contacts_def demo_engine_def demo_self_def
      demo_count_def and_then_def native_def return_def mx_getitem_def numeral_2_eq_2)

section \<open>Names, counts and indices\<close>



text \<open>
  Claim C9. \<^const>\<open>marker\<close> with no argument or with exactly one argument returns the bound
  method \<^verbatim>\<open>self.model.marker\<close>, whatever the engine and the argument are, and leaves the
  engine's state as it was: the engine is not called and the argument is dropped. With two
  arguments or more the result is the engine's answer to \<^verbatim>\<open>marker(*args)\<close>, unconverted.
\<close>

theorem marker_arity:
  "marker E self [] s = (Inr (BoundMethod (model self) M_marker), s)
   \<and> marker E self [x] s = (Inr (BoundMethod (model self) M_marker), s)
   \<and> marker E self (x # y # zs) s =
       (case model_call E (model self) M_marker (x # y # zs) s of
          (Inl err, s') \<Rightarrow> (Inl (EngineError err), s')
        | (Inr r, s') \<Rightarrow> (Inr (Native r), s'))"
  by (auto simp: marker_def forwarded_def and_then_def native_def return_def split: prod.splits sum.splits)







lemma demo_marker_index_value:
  "fst (marker_index demo_engine demo_self ''toe'' 0) = Inr 1
   \<and> fst (marker_names demo_engine demo_self 0) = Inr [''hip'', ''toe'']
   \<and> fst (nb_markers demo_engine demo_self 0) = Inr 2"
  by (simp add: marker_index_def marker_names_def name_tuple_def nb_markers_def demo_engine_def
      demo_self_def demo_names_def demo_count_def native_def and_then_def return_def)






text \<open>
  On the small engine, whose count queries are reads, the accessors are pure reads, and a
  call of \<^const>\<open>nb_q\<close> is one \<^verbatim>\<open>nbQ()\<close>.
\<close>

lemma demo_count_accessors_value:
  "pure_read (nb_q demo_engine demo_self)
   \<and> pure_read (nb_markers demo_engine demo_self)
   \<and> nb_q (call_logged demo_engine) demo_self (0, []) = (Inr 2, (0, [CountCall nbQ]))
   \<and> \<not> pure_read (nb_q ticking_engine demo_self)"
proof -
  have "nb_q ticking_engine demo_self 0 = (Inr 2, 1)"
    by (simp add: nb_q_def ticking_engine_def demo_engine_def demo_self_def demo_count_def native_def)
  then have moved: "snd (nb_q ticking_engine demo_self 0) \<noteq> 0" by simp
  have "\<not> pure_read (nb_q ticking_engine demo_self)"
  proof
    assume "pure_read (nb_q ticking_engine demo_self)"
    then have "snd (nb_q ticking_engine demo_self 0) = 0" by (simp add: pure_read_def)
    with moved show False by simp
  qed
  then show ?thesis
    by (simp add: pure_read_def nb_q_def nb_markers_def call_logged_def noting_def demo_engine_def
        demo_self_def demo_count_def native_def)
qed


section \<open>Soft contact forces\<close>





text \<open>The method run on the small engine, and on the engine without soft contacts.\<close>

lemma demo_soft_contact_forces_value:
  "fst (soft_contact_forces demo_engine demo_self PyNone PyNone 0)
     = Inr (MX [[0, 0, 0, 0, 0, 1, 1, 0, 0, 0, 0, 1]])
   \<and> fst (soft_contact_forces demo_engine_no_soft demo_self PyNone PyNone 0) = Inr (MX [[]])"
  by (simp add: soft_contact_forces_def nb_soft_contacts_def force_at_origin_def soft_contact_def
      forwarded_def demo_engine_no_soft_def demo_engine_def demo_self_def demo_count_def
      and_then_def native_def return_def MX_zeros_def mx_set_rows_def numeral_2_eq_2)


section \<open>Marker velocities in a reference frame\<close>

lemma and_then_run: "m s = (Inr a, s1) \<Longrightarrow> and_then m f s = f a s1"
  by (simp add: and_then_def)

lemma velocities_in_identity_frame:
  assumes ident: "\<And>m t. obj_applyRT E m jcs_t t = (Inr (m, PyNone), t)"
  shows "velocities_in_frame E jcs_t ms = for_each (\<lambda>m. native (obj_to_mx E m)) ms"
proof (induction ms)
  case Nil
  show ?case by simp
next
  case (Cons m ms)
  have step: "and_then (native (obj_applyRT E m jcs_t)) k = k (m, PyNone)" for k
    by (rule ext) (simp add: and_then_def native_def ident)
  show ?case
    by (simp only: velocities_in_frame.simps for_each.simps step prod.case refl if_True Cons.IH)
qed

text \<open>
  Claim C2 as stated fails. On the engine with a kinematics cache, from the state where the
  cache belongs to configuration 3, \<^const>\<open>marker_velocities\<close> at \<open>q = 7\<close> with the update
  flag \<^verbatim>\<open>False\<close> answers from the stale cache when no frame is given, and from the cache
  that \<^verbatim>\<open>globalJCS(q, frame)\<close> has refreshed when the identity frame is given.
\<close>

theorem marker_velocities_identity_frame_counterexample:
  "marker_velocities cache_engine demo_self (PyInt 7) PyNone (PyBool False) (PyInt 0) 3
     = (Inr (MX [[7, 0, 0]]), 7)
   \<and> marker_velocities cache_engine demo_self (PyInt 7) PyNone (PyBool False) PyNone 3
     = (Inr (MX [[3, 0, 0]]), 3)
   \<and> model_call cache_engine DemoModel M_globalJCS [PyInt 7, PyInt 0] 3 = (Inr DemoFrame, 7)
   \<and> obj_transpose cache_engine DemoFrame 7 = (Inr DemoFrame, 7)
   \<and> obj_applyRT cache_engine (DemoVector [3, 0, 0]) DemoFrame 7 = (Inr (DemoVector [3, 0, 0], PyNone), 7)"
  by (simp add: marker_velocities_def global_homogeneous_matrices_def forwarded_def
      call_transpose_def horzcat_def cache_engine_def demo_engine_def demo_self_def and_then_def
      native_def return_def)

text \<open>
  Claim C2, as the code has it. Let the frame \<open>reference_jcs\<close> be one whose transform is the
  identity: the transpose \<open>jcs_t\<close> of the engine's \<^verbatim>\<open>globalJCS(q, reference_jcs)\<close>, applied to
  a marker by \<^verbatim>\<open>applyRT\<close>, leaves the marker and the engine as they were (and the call
  returns \<^verbatim>\<open>None\<close>). Then, for every \<open>q\<close>, \<open>qdot\<close> and update flag, \<^const>\<open>marker_velocities\<close>
  with this frame, started in state \<open>s\<close>, is \<^const>\<open>marker_velocities\<close> with no frame started
  in the state \<open>s1\<close> that the frame query leaves: same result, errors included, and same
  final state.
\<close>

theorem marker_velocities_identity_frame:
  assumes frame: "reference_jcs \<noteq> PyNone"
    and query: "and_then (global_homogeneous_matrices E self [q, reference_jcs])
                  (\<lambda>jcs. call_transpose E jcs) s = (Inr jcs_t, s1)"
    and ident: "\<And>m t. obj_applyRT E m jcs_t t = (Inr (m, PyNone), t)"
  shows "marker_velocities E self q qdot update_kin reference_jcs s
       = marker_velocities E self q qdot update_kin PyNone s1"
proof -
  have "marker_velocities E self q qdot update_kin reference_jcs s
      = and_then
          (and_then (global_homogeneous_matrices E self [q, reference_jcs])
             (\<lambda>jcs. call_transpose E jcs))
          (\<lambda>jcs_t.
             and_then (native (model_call_vec E (model self) M_markersVelocity [q, qdot, update_kin]))
               (\<lambda>ms. and_then (velocities_in_frame E jcs_t ms)
                  (\<lambda>xs. and_then (horzcat xs) (\<lambda>h. return (MX h))))) s"
    unfolding marker_velocities_def by (simp only: frame if_False)
  also have "\<dots>
      = and_then (native (model_call_vec E (model self) M_markersVelocity [q, qdot, update_kin]))
          (\<lambda>ms. and_then (velocities_in_frame E jcs_t ms)
             (\<lambda>xs. and_then (horzcat xs) (\<lambda>h. return (MX h)))) s1"
    using query by (rule and_then_run)
  also have "\<dots> = marker_velocities E self q qdot update_kin PyNone s1"
    unfolding marker_velocities_def
    by (simp only: refl if_True velocities_in_identity_frame[OF ident])
  finally show ?thesis .
qed

theorem marker_velocities_identity_frame_witness:
  "PyInt 0 \<noteq> (PyNone :: (demo_obj, int) pyval)
   \<and> and_then (global_homogeneous_matrices cache_engine demo_self [PyInt 7, PyInt 0])
        (\<lambda>jcs. call_transpose cache_engine jcs) 3 = (Inr DemoFrame, 7)
   \<and> (\<forall>m t. obj_applyRT cache_engine m DemoFrame t = (Inr (m, PyNone), t))
   \<and> marker_velocities cache_engine demo_self (PyInt 7) PyNone (PyBool False) (PyInt 0) 3
     = marker_velocities cache_engine demo_self (PyInt 7) PyNone (PyBool False) PyNone 7"
proof -
  have frame: "PyInt 0 \<noteq> (PyNone :: (demo_obj, int) pyval)" by simp
  have query: "and_then (global_homogeneous_matrices cache_engine demo_self [PyInt 7, PyInt 0])
        (\<lambda>jcs. call_transpose cache_engine jcs) 3 = (Inr DemoFrame, 7)"
    by (simp add: global_homogeneous_matrices_def forwarded_def call_transpose_def cache_engine_def
        demo_engine_def demo_self_def and_then_def native_def return_def)
  have ident: "\<And>m t. obj_applyRT cache_engine m DemoFrame t = (Inr (m, PyNone), t)"
    by (simp add: cache_engine_def demo_engine_def)
  show ?thesis
    using query ident
      marker_velocities_identity_frame [of "PyInt 0" cache_engine demo_self "PyInt 7" 3 DemoFrame 7
        PyNone "PyBool False", OF frame query ident]
    by simp
qed

text \<open>
  Both paths run on the small engine, where the frame query only counts one more update: the
  matrices agree, the final states differ by that query. On the engine with the cache the
  two paths agree from every state when the update flag is \<^verbatim>\<open>True\<close>.
\<close>

lemma demo_marker_velocities_value:
  "marker_velocities demo_engine demo_self PyNone PyNone (PyBool False) PyNone 0
     = (Inr (MX [[1, 0, 0], [0, 2, 0]]), 1)
   \<and> marker_velocities demo_engine demo_self PyNone PyNone (PyBool False) (PyInt 0) 0
     = (Inr (MX [[1, 0, 0], [0, 2, 0]]), 2)
   \<and> marker_velocities cache_engine demo_self (PyInt 7) PyNone (PyBool True) (PyInt 0) 3
     = (Inr (MX [[7, 0, 0]]), 7)
   \<and> marker_velocities cache_engine demo_self (PyInt 7) PyNone (PyBool True) PyNone 3
     = (Inr (MX [[7, 0, 0]]), 7)"
  by (simp add: marker_velocities_def global_homogeneous_matrices_def forwarded_def
      call_transpose_def horzcat_def cache_engine_def demo_engine_def demo_self_def and_then_def
      native_def return_def)


section \<open>The types that cross the boundary\<close>

lemma returns_return: "P a \<Longrightarrow> returns P (return a)"
  by (simp add: returns_def return_def)

lemma returns_and_then: "(\<And>a. returns P (f a)) \<Longrightarrow> returns P (and_then m f)"
  unfolding returns_def and_then_def
proof (intro allI)
  fix s
  assume f: "\<And>a. \<forall>s. case fst (f a s) of Inl err \<Rightarrow> True | Inr v \<Rightarrow> P v"
  obtain r t where ms: "m s = (r, t)" by (cases "m s")
  show "case fst (case m s of (Inl x, s') \<Rightarrow> (Inl x, s') | (Inr a, s') \<Rightarrow> f a s') of
          Inl err \<Rightarrow> True | Inr v \<Rightarrow> P v"
    using ms f by (cases r) simp_all
qed

lemma returns_converted: "returns is_MX (converted E self f args)"
  unfolding converted_def
  by (intro returns_and_then returns_return) simp

lemma list_all_is_MX: "list_all is_MX (map MX xs)"
  by (induction xs) simp_all

text \<open>
  Claim C3, as the code has it. Whenever they return, the methods whose body ends in
  \<^verbatim>\<open>.to_mx()\<close> return a symbolic matrix, \<^const>\<open>tau_max\<close> a tuple of exactly two symbolic
  matrices, \<^const>\<open>markers\<close> with at least one argument a list of symbolic matrices,
  \<^const>\<open>marker_velocities\<close> and \<^const>\<open>soft_contact_forces\<close> a symbolic matrix.
  \<^const>\<open>markers\<close> without argument and \<^const>\<open>marker\<close> with at most one argument return a
  bound method of the wrapped model, and \<^const>\<open>marker\<close> with two arguments or more the
  engine's object as it is.
\<close>

theorem boundary_types:
  "returns is_MX (gravity E self)
   \<and> returns is_MX (mass E self)
   \<and> returns is_MX (center_of_mass E self q updateKin)
   \<and> returns is_MX (center_of_mass_velocity E self q qdot updateKin)
   \<and> returns is_MX (center_of_mass_acceleration E self q qdot qddot updateKin)
   \<and> returns is_MX (reshape_qdot E self q qdot k_stab)
   \<and> returns is_MX (torque E self tau_activations q qdot)
   \<and> returns is_MX (forward_dynamics_free_floating_base E self q qdot qddot_joints)
   \<and> returns is_MX (forward_dynamics E self q qdot tau fext f_contacts)
   \<and> returns is_MX (constrained_forward_dynamics E self args)
   \<and> returns is_MX (inverse_dynamics E self q qdot qddot fext f_contacts)
   \<and> returns is_MX (contact_forces_from_constrained_forward_dynamics E self q qdot tau fext)
   \<and> returns is_MX (qdot_from_impact E self q qdot)
   \<and> returns is_MX (muscle_activation_dot E self muscle_states)
   \<and> returns is_MX (muscle_joint_torque E self muscle_states q qdot)
   \<and> returns is_MX (rigid_contact_acceleration E self q qdot qddot idx updateKin)
   \<and> returns is_MX_pair (tau_max E self args)
   \<and> returns is_MX_list (markers E self (a # args))
   \<and> returns is_MX (marker_velocities E self q qdot updateKin reference_jcs)
   \<and> returns is_MX (soft_contact_forces E self q qdot)
   \<and> markers E self [] = return (BoundMethod (model self) M_markers)
   \<and> marker E self [] = return (BoundMethod (model self) M_marker)
   \<and> marker E self [a] = return (BoundMethod (model self) M_marker)
   \<and> returns (\<lambda>v. \<exists>r. v = Native r) (marker E self (a # b # args))"
proof -
  have tau: "returns is_MX_pair (tau_max E self args)"
    unfolding tau_max_def
    by (intro returns_and_then) (auto intro!: returns_and_then returns_return simp: is_MX_pair_def)
  have vel: "returns is_MX (marker_velocities E self q qdot updateKin reference_jcs)"
    unfolding marker_velocities_def
    by (auto intro!: returns_and_then returns_return)
  have soft: "returns is_MX (soft_contact_forces E self q qdot)"
    unfolding soft_contact_forces_def
    by (intro returns_and_then returns_return) simp
  have mks: "returns is_MX_list (markers E self (a # args))"
    unfolding markers_def
    by (auto intro!: returns_and_then returns_return simp: is_MX_list_def list_all_is_MX)
  have mk2: "returns (\<lambda>v. \<exists>r. v = Native r) (marker E self (a # b # args))"
    unfolding marker_def forwarded_def
    by (auto intro!: returns_and_then returns_return)
  show ?thesis
    unfolding gravity_def mass_def center_of_mass_def center_of_mass_velocity_def
      center_of_mass_acceleration_def reshape_qdot_def torque_def
      forward_dynamics_free_floating_base_def forward_dynamics_def
      constrained_forward_dynamics_def inverse_dynamics_def
      contact_forces_from_constrained_forward_dynamics_def qdot_from_impact_def
      muscle_activation_dot_def muscle_joint_torque_def rigid_contact_acceleration_def
    using tau vel soft mks mk2
    by (simp add: returns_converted markers_def marker_def)
qed

text \<open>
  Claim C3 as stated fails: \<^const>\<open>marker\<close> called with one argument, and
  \<^const>\<open>markers\<close> called with none, return a bound method, which is no symbolic matrix.
\<close>

theorem boundary_types_counterexample:
  "marker demo_engine demo_self [PyInt 0] 0 = (Inr (BoundMethod DemoModel M_marker), 0)
   \<and> \<not> boundary_MX (BoundMethod DemoModel M_marker :: (demo_obj, int) pyval)
   \<and> markers demo_engine demo_self [] 0 = (Inr (BoundMethod DemoModel M_markers), 0)
   \<and> \<not> boundary_MX (BoundMethod DemoModel M_markers :: (demo_obj, int) pyval)"
  by (simp add: marker_def markers_def return_def demo_self_def boundary_MX_def)

text \<open>
  \<^const>\<open>angular_momentum\<close> hands the engine's object on without \<^verbatim>\<open>.to_mx()\<close>, where
  \<^const>\<open>center_of_mass\<close> converts.
\<close>

lemma demo_angular_momentum_value:
  "angular_momentum demo_engine demo_self PyNone PyNone (PyBool True) 0
     = (Inr (Native (DemoVector [0, 0, 1])), 1)
   \<and> center_of_mass demo_engine demo_self (PyInt 0) (PyBool True) 0
     = (Inr (MX [[0, 0, 1]]), 1)"
  by (simp add: angular_momentum_def center_of_mass_def forwarded_def converted_def
      demo_engine_def demo_self_def and_then_def native_def return_def)


section \<open>Engine failures reach the caller as they are\<close>

lemma tracedI:
  "(\<And>s log. \<exists>r s'. m' (s, log) = (r, (s', log @ raised_by_engine r)) \<and> m s = (r, s')) \<Longrightarrow> traced m' m"
  unfolding traced_def by (metis (mono_tags, lifting) case_prod_conv)

lemma tracedD:
  "traced m' m \<Longrightarrow> \<exists>r s'. m' (s, log) = (r, (s', log @ raised_by_engine r)) \<and> m s = (r, s')"
  unfolding traced_def
  by (cases "m' (s, log)") (auto split: prod.splits dest!: spec[of _ s] spec[of _ log])

lemma traced_return: "traced (return a) (return a)"
  by (rule tracedI) (simp add: return_def raised_by_engine_def)

lemma traced_raise:
  "traced (raise IndexError) (raise IndexError)"
  "traced (raise DimensionError) (raise DimensionError)"
  "traced (raise AttributeError) (raise AttributeError)"
  by (rule tracedI, simp add: raise_def raised_by_engine_def)+

lemma traced_native: "traced (native (logged c)) (native c)"
proof (rule tracedI)
  fix s log
  obtain r t where cs: "c s = (r, t)" by (cases "c s")
  show "\<exists>r s'. native (logged c) (s, log) = (r, s', log @ raised_by_engine r) \<and> native c s = (r, s')"
    using cs by (cases r) (simp_all add: native_def logged_def raised_by_engine_def)
qed

lemma traced_and_then:
  assumes m: "traced m' m" and f: "\<And>a. traced (f' a) (f a)"
  shows "traced (and_then m' f') (and_then m f)"
proof (rule tracedI)
  fix s log
  from tracedD[OF m, of s log] obtain r s1 where
    m1: "m' (s, log) = (r, (s1, log @ raised_by_engine r))" and m2: "m s = (r, s1)" by blast
  show "\<exists>r s'. and_then m' f' (s, log) = (r, s', log @ raised_by_engine r) \<and> and_then m f s = (r, s')"
  proof (cases r)
    case (Inl x)
    with m1 m2 show ?thesis by (simp add: and_then_def raised_by_engine_def)
  next
    case (Inr a)
    then have nolog: "raised_by_engine r = []" by (simp add: raised_by_engine_def)
    from tracedD[OF f[of a], of s1 log] obtain r2 s2 where
      "f' a (s1, log) = (r2, (s2, log @ raised_by_engine r2))" and "f a s1 = (r2, s2)" by blast
    with m1 m2 Inr nolog show ?thesis by (simp add: and_then_def)
  qed
qed

lemma traced_for_each:
  "(\<And>x. traced (f' x) (f x)) \<Longrightarrow> traced (for_each f' xs) (for_each f xs)"
  by (induction xs) (auto intro!: traced_return traced_and_then)

lemma traced_for_loop:
  "(\<And>i acc. traced (body' i acc) (body i acc)) \<Longrightarrow> traced (for_loop ixs body' acc) (for_loop ixs body acc)"
  by (induction ixs arbitrary: acc) (auto intro!: traced_return traced_and_then)

lemma traced_if:
  "(c \<Longrightarrow> traced a' a) \<Longrightarrow> (\<not> c \<Longrightarrow> traced b' b)
     \<Longrightarrow> traced (if c then a' else b') (if c then a else b)"
  by simp

lemma traced_case_prod:
  "(\<And>a b. traced (f' a b) (f a b))
     \<Longrightarrow> traced (case p of (a, b) \<Rightarrow> f' a b) (case p of (a, b) \<Rightarrow> f a b)"
  by (cases p) simp

lemma traced_mx_getitem: "traced (mx_getitem fext idx) (mx_getitem fext idx)"
  by (simp add: mx_getitem_def traced_return traced_raise)

lemma traced_horzcat: "traced (horzcat ms) (horzcat ms)"
  by (simp add: horzcat_def Let_def traced_return traced_raise)

lemma traced_mx_set_rows: "traced (mx_set_rows M lo hi v) (mx_set_rows M lo hi v)"
  unfolding mx_set_rows_def Let_def
  by (intro traced_if traced_return traced_raise)

lemma instrumented_simps:
  "biorbd_Model (instrumented E) p = logged (biorbd_Model E p)"
  "biorbd_segment_index (instrumented E) h name = logged (biorbd_segment_index E h name)"
  "biorbd_marker_index (instrumented E) h name = logged (biorbd_marker_index E h name)"
  "biorbd_RotoTrans (instrumented E) = logged (biorbd_RotoTrans E)"
  "biorbd_SoftContactSphere (instrumented E) v = logged (biorbd_SoftContactSphere E v)"
  "model_count (instrumented E) h c = logged (model_count E h c)"
  "model_names (instrumented E) h nq = logged (model_names E h nq)"
  "model_call (instrumented E) h f args = logged (model_call E h f args)"
  "model_call_vec (instrumented E) h f args = logged (model_call_vec E h f args)"
  "model_call_pair (instrumented E) h f args = logged (model_call_pair E h f args)"
  "model_setGravity (instrumented E) h g = logged (model_setGravity E h g)"
  "model_rigidContactAxisIdx (instrumented E) h i = logged (model_rigidContactAxisIdx E h i)"
  "obj_to_mx (instrumented E) n = logged (obj_to_mx E n)"
  "obj_to_string (instrumented E) n = logged (obj_to_string E n)"
  "obj_transpose (instrumented E) n = logged (obj_transpose E n)"
  "obj_applyRT (instrumented E) m rt = logged (obj_applyRT E m rt)"
  "obj_computeForceAtOrigin (instrumented E) sp h q qdot = logged (obj_computeForceAtOrigin E sp h q qdot)"
  by (simp_all add: instrumented_def)

lemmas traced_rules =
  traced_return traced_raise traced_native traced_and_then traced_for_each traced_for_loop
  traced_mx_getitem traced_horzcat traced_mx_set_rows traced_if traced_case_prod

lemma traced_forwarded: "traced (forwarded (instrumented E) self f args) (forwarded E self f args)"
  unfolding forwarded_def by (simp only: instrumented_simps) (intro traced_rules)

lemma traced_converted: "traced (converted (instrumented E) self f args) (converted E self f args)"
  unfolding converted_def by (simp only: instrumented_simps) (intro traced_rules)

lemma traced_name_tuple: "traced (name_tuple (instrumented E) self f) (name_tuple E self f)"
  unfolding name_tuple_def by (simp only: instrumented_simps) (intro traced_rules)

lemma traced_count:
  "traced (native (model_count (instrumented E) h c)) (native (model_count E h c))"
  by (simp only: instrumented_simps) (intro traced_rules)

lemma traced_init: "traced (BiorbdModel_init (instrumented E) b) (BiorbdModel_init E b)"
  unfolding BiorbdModel_init_def
  by (cases b) (simp_all add: instrumented_simps traced_rules)

lemma traced_velocities_in_frame:
  "traced (velocities_in_frame (instrumented E) jcs_t ms) (velocities_in_frame E jcs_t ms)"
proof (induction ms)
  case Nil
  show ?case by (simp add: traced_return)
next
  case (Cons m ms)
  show ?case
    apply (simp only: velocities_in_frame.simps instrumented_simps)
    apply (intro traced_and_then traced_native traced_case_prod traced_if traced_return Cons.IH)
    done
qed

lemma traced_deep_copy: "traced (deep_copy (instrumented E) self args) (deep_copy E self args)"
  unfolding deep_copy_def
  by (simp only: instrumented_simps) (intro traced_and_then traced_native traced_init)

lemma traced_markers: "traced (markers (instrumented E) self args) (markers E self args)"
  unfolding markers_def by (simp only: instrumented_simps) (intro traced_rules)

lemma traced_marker: "traced (marker (instrumented E) self args) (marker E self args)"
  unfolding marker_def by (intro traced_if traced_forwarded traced_return)

lemma traced_call_transpose: "traced (call_transpose (instrumented E) v) (call_transpose E v)"
  unfolding call_transpose_def
  by (cases v) (simp_all add: instrumented_simps traced_native traced_raise)

lemma traced_marker_velocities:
  "traced (marker_velocities (instrumented E) self q qdot update_kin reference_jcs)
          (marker_velocities E self q qdot update_kin reference_jcs)"
  unfolding marker_velocities_def global_homogeneous_matrices_def
  by (simp only: instrumented_simps)
     (intro traced_rules traced_forwarded traced_call_transpose traced_velocities_in_frame)

lemma traced_tau_max: "traced (tau_max (instrumented E) self args) (tau_max E self args)"
  unfolding tau_max_def by (simp only: instrumented_simps) (intro traced_rules)

lemma traced_force_at_origin:
  "traced (force_at_origin (instrumented E) self q qdot i) (force_at_origin E self q qdot i)"
  unfolding force_at_origin_def soft_contact_def
  by (simp only: instrumented_simps) (intro traced_rules traced_forwarded)

lemma traced_soft_contact_forces:
  "traced (soft_contact_forces (instrumented E) self q qdot) (soft_contact_forces E self q qdot)"
  unfolding soft_contact_forces_def nb_soft_contacts_def
  by (intro traced_rules traced_count traced_force_at_origin)

lemma traced_reshape:
  "traced (reshape_fext_to_fcontact (instrumented E) self fext) (reshape_fext_to_fcontact E self fext)"
  unfolding reshape_fext_to_fcontact_def nb_rigid_contacts_def Let_def
  by (simp only: instrumented_simps) (intro traced_rules)

lemma efo_return: "engine_failures_only (return a)"
  by (simp add: engine_failures_only_def return_def)

lemma efo_native: "engine_failures_only (native c)"
  unfolding engine_failures_only_def native_def
proof
  fix s
  obtain r t where "c s = (r, t)" by (cases "c s")
  then show "case fst (case c s of (Inl x, s') \<Rightarrow> (Inl (EngineError x), s') | (Inr a, s') \<Rightarrow> (Inr a, s')) of
               Inl (EngineError x) \<Rightarrow> True | Inl other \<Rightarrow> False | Inr a \<Rightarrow> True"
    by (cases r) simp_all
qed

lemma efo_and_then:
  assumes m: "engine_failures_only m" and f: "\<And>a. engine_failures_only (f a)"
  shows "engine_failures_only (and_then m f)"
  unfolding engine_failures_only_def
proof
  fix s
  obtain r t where ms: "m s = (r, t)" by (cases "m s")
  show "case fst (and_then m f s) of Inl (EngineError x) \<Rightarrow> True | Inl other \<Rightarrow> False | Inr a \<Rightarrow> True"
  proof (cases r)
    case (Inl e)
    with m ms show ?thesis
      by (auto simp: engine_failures_only_def and_then_def dest!: spec[of _ s])
  next
    case (Inr a)
    with f[of a] ms show ?thesis
      by (auto simp: engine_failures_only_def and_then_def)
  qed
qed

lemma efo_for_each: "(\<And>x. engine_failures_only (f x)) \<Longrightarrow> engine_failures_only (for_each f xs)"
  by (induction xs) (auto intro!: efo_return efo_and_then)

lemma efo_if:
  "(c \<Longrightarrow> engine_failures_only a) \<Longrightarrow> (\<not> c \<Longrightarrow> engine_failures_only b)
     \<Longrightarrow> engine_failures_only (if c then a else b)"
  by simp

lemma efo_case_prod:
  "(\<And>a b. engine_failures_only (f a b)) \<Longrightarrow> engine_failures_only (case p of (a, b) \<Rightarrow> f a b)"
  by (cases p) simp

lemmas efo_rules = efo_return efo_native efo_and_then efo_for_each efo_if efo_case_prod

lemma efo_forwarded: "engine_failures_only (forwarded E self f args)"
  unfolding forwarded_def by (intro efo_rules)

lemma efo_converted: "engine_failures_only (converted E self f args)"
  unfolding converted_def by (intro efo_rules)

lemma efo_name_tuple: "engine_failures_only (name_tuple E self f)"
  unfolding name_tuple_def by (intro efo_rules)

lemma efo_init: "engine_failures_only (BiorbdModel_init E b)"
  unfolding BiorbdModel_init_def by (cases b) (simp_all add: efo_rules)

text \<open>
  Claim C7 as stated fails. \<^const>\<open>reshape_fext_to_fcontact\<close> on a force vector shorter than
  the axes of the contacts fails with an index error of the Python side, while the engine
  has raised nothing: the method fails and no call of the engine does.
\<close>

theorem engine_errors_propagate_counterexample:
  "reshape_fext_to_fcontact (instrumented demo_engine) demo_self [10, 20] (0, [])
     = (Inl IndexError, (0, []))"
  by (simp add: reshape_fext_to_fcontact_def nb_rigid_contacts_def mx_getitem_def
      instrumented_def logged_def demo_engine_def demo_self_def demo_count_def and_then_def
      native_def return_def raise_def numeral_2_eq_2)

text \<open>
  Claim C7, as the code has it. For every method of the adapter, on every engine and every
  input: if an entry point of the engine raises during the call, the call fails with that
  very error, and it is the only failure of the engine during the call (nothing is caught,
  translated or tried again); if the call returns, or fails on the Python side, the engine
  has raised nothing. Every method other than \<^const>\<open>marker_velocities\<close>,
  \<^const>\<open>soft_contact_forces\<close> and \<^const>\<open>reshape_fext_to_fcontact\<close> fails with errors of the
  engine only, hence exactly when a call of the engine fails; these three can also fail on
  the Python side (a column of another height, a block of another size, an index past the
  end of the force vector), and that failure is not caught either.
\<close>

theorem engine_errors_propagate:
  "(traced (BiorbdModel_init (instrumented E) bio_model) (BiorbdModel_init E bio_model)
    \<and> traced (deep_copy (instrumented E) self args) (deep_copy E self args)
    \<and> traced (gravity (instrumented E) self) (gravity E self)
    \<and> traced (set_gravity (instrumented E) self newGravity) (set_gravity E self newGravity)
    \<and> traced (nb_tau (instrumented E) self) (nb_tau E self)
    \<and> traced (nb_segments (instrumented E) self) (nb_segments E self)
    \<and> traced (segment_index (instrumented E) self name) (segment_index E self name)
    \<and> traced (nb_quaternions (instrumented E) self) (nb_quaternions E self)
    \<and> traced (nb_q (instrumented E) self) (nb_q E self)
    \<and> traced (nb_qdot (instrumented E) self) (nb_qdot E self)
    \<and> traced (nb_qddot (instrumented E) self) (nb_qddot E self)
    \<and> traced (nb_root (instrumented E) self) (nb_root E self)
    \<and> traced (segments (instrumented E) self) (segments E self)
    \<and> traced (global_homogeneous_matrices (instrumented E) self args)
         (global_homogeneous_matrices E self args)
    \<and> traced (child_homogeneous_matrices (instrumented E) self args)
         (child_homogeneous_matrices E self args)
    \<and> traced (mass (instrumented E) self) (mass E self)
    \<and> traced (center_of_mass (instrumented E) self q updateKin) (center_of_mass E self q updateKin)
    \<and> traced (center_of_mass_velocity (instrumented E) self q qdot updateKin)
         (center_of_mass_velocity E self q qdot updateKin)
    \<and> traced (center_of_mass_acceleration (instrumented E) self q qdot qddot updateKin)
         (center_of_mass_acceleration E self q qdot qddot updateKin)
    \<and> traced (angular_momentum (instrumented E) self q qdot updateKin)
         (angular_momentum E self q qdot updateKin)
    \<and> traced (reshape_qdot (instrumented E) self q qdot k_stab) (reshape_qdot E self q qdot k_stab)
    \<and> traced (segment_angular_velocity (instrumented E) self q qdot idx updateKin)
         (segment_angular_velocity E self q qdot idx updateKin)
    \<and> traced (name_dof (instrumented E) self) (name_dof E self)
    \<and> traced (contact_names (instrumented E) self) (contact_names E self)
    \<and> traced (nb_soft_contacts (instrumented E) self) (nb_soft_contacts E self)
    \<and> traced (soft_contact_names (instrumented E) self) (soft_contact_names E self)
    \<and> traced (soft_contact (instrumented E) self args) (soft_contact E self args)
    \<and> traced (muscle_names (instrumented E) self) (muscle_names E self)
    \<and> traced (nb_muscles (instrumented E) self) (nb_muscles E self)
    \<and> traced (torque (instrumented E) self tau_activations q qdot) (torque E self tau_activations q qdot)
    \<and> traced (forward_dynamics_free_floating_base (instrumented E) self q qdot qddot_joints)
         (forward_dynamics_free_floating_base E self q qdot qddot_joints)
    \<and> traced (forward_dynamics (instrumented E) self q qdot tau fext f_contacts)
         (forward_dynamics E self q qdot tau fext f_contacts)
    \<and> traced (constrained_forward_dynamics (instrumented E) self args)
         (constrained_forward_dynamics E self args)
    \<and> traced (inverse_dynamics (instrumented E) self q qdot qddot fext f_contacts)
         (inverse_dynamics E self q qdot qddot fext f_contacts)
    \<and> traced (contact_forces_from_constrained_forward_dynamics (instrumented E) self q qdot tau fext)
         (contact_forces_from_constrained_forward_dynamics E self q qdot tau fext)
    \<and> traced (qdot_from_impact (instrumented E) self q qdot) (qdot_from_impact E self q qdot)
    \<and> traced (state_set (instrumented E) self) (state_set E self)
    \<and> traced (muscle_activation_dot (instrumented E) self muscle_states)
         (muscle_activation_dot E self muscle_states)
    \<and> traced (muscle_joint_torque (instrumented E) self muscle_states q qdot)
         (muscle_joint_torque E self muscle_states q qdot)
    \<and> traced (markers (instrumented E) self args) (markers E self args)
    \<and> traced (nb_markers (instrumented E) self) (nb_markers E self)
    \<and> traced (marker_index (instrumented E) self name) (marker_index E self name)
    \<and> traced (marker (instrumented E) self args) (marker E self args)
    \<and> traced (nb_rigid_contacts (instrumented E) self) (nb_rigid_contacts E self)
    \<and> traced (nb_contacts (instrumented E) self) (nb_contacts E self)
    \<and> traced (path (instrumented E) self) (path E self)
    \<and> traced (marker_velocities (instrumented E) self q qdot updateKin reference_jcs)
         (marker_velocities E self q qdot updateKin reference_jcs)
    \<and> traced (tau_max (instrumented E) self args) (tau_max E self args)
    \<and> traced (rigid_contact_acceleration (instrumented E) self q qdot qddot idx updateKin)
         (rigid_contact_acceleration E self q qdot qddot idx updateKin)
    \<and> traced (object_homogeneous_matrix (instrumented E) self args)
         (object_homogeneous_matrix E self args)
    \<and> traced (nb_dof (instrumented E) self) (nb_dof E self)
    \<and> traced (marker_names (instrumented E) self) (marker_names E self)
    \<and> traced (soft_contact_forces (instrumented E) self q qdot) (soft_contact_forces E self q qdot)
    \<and> traced (reshape_fext_to_fcontact (instrumented E) self flat)
         (reshape_fext_to_fcontact E self flat))
   \<and> (engine_failures_only (BiorbdModel_init E bio_model)
    \<and> engine_failures_only (deep_copy E self args)
    \<and> engine_failures_only (gravity E self)
    \<and> engine_failures_only (set_gravity E self newGravity)
    \<and> engine_failures_only (nb_tau E self)
    \<and> engine_failures_only (nb_segments E self)
    \<and> engine_failures_only (segment_index E self name)
    \<and> engine_failures_only (nb_quaternions E self)
    \<and> engine_failures_only (nb_q E self)
    \<and> engine_failures_only (nb_qdot E self)
    \<and> engine_failures_only (nb_qddot E self)
    \<and> engine_failures_only (nb_root E self)
    \<and> engine_failures_only (segments E self)
    \<and> engine_failures_only (global_homogeneous_matrices E self args)
    \<and> engine_failures_only (child_homogeneous_matrices E self args)
    \<and> engine_failures_only (mass E self)
    \<and> engine_failures_only (center_of_mass E self q updateKin)
    \<and> engine_failures_only (center_of_mass_velocity E self q qdot updateKin)
    \<and> engine_failures_only (center_of_mass_acceleration E self q qdot qddot updateKin)
    \<and> engine_failures_only (angular_momentum E self q qdot updateKin)
    \<and> engine_failures_only (reshape_qdot E self q qdot k_stab)
    \<and> engine_failures_only (segment_angular_velocity E self q qdot idx updateKin)
    \<and> engine_failures_only (name_dof E self)
    \<and> engine_failures_only (contact_names E self)
    \<and> engine_failures_only (nb_soft_contacts E self)
    \<and> engine_failures_only (soft_contact_names E self)
    \<and> engine_failures_only (soft_contact E self args)
    \<and> engine_failures_only (muscle_names E self)
    \<and> engine_failures_only (nb_muscles E self)
    \<and> engine_failures_only (torque E self tau_activations q qdot)
    \<and> engine_failures_only (forward_dynamics_free_floating_base E self q qdot qddot_joints)
    \<and> engine_failures_only (forward_dynamics E self q qdot tau fext f_contacts)
    \<and> engine_failures_only (constrained_forward_dynamics E self args)
    \<and> engine_failures_only (inverse_dynamics E self q qdot qddot fext f_contacts)
    \<and> engine_failures_only (contact_forces_from_constrained_forward_dynamics E self q qdot tau fext)
    \<and> engine_failures_only (qdot_from_impact E self q qdot)
    \<and> engine_failures_only (state_set E self)
    \<and> engine_failures_only (muscle_activation_dot E self muscle_states)
    \<and> engine_failures_only (muscle_joint_torque E self muscle_states q qdot)
    \<and> engine_failures_only (markers E self args)
    \<and> engine_failures_only (nb_markers E self)
    \<and> engine_failures_only (marker_index E self name)
    \<and> engine_failures_only (marker E self args)
    \<and> engine_failures_only (nb_rigid_contacts E self)
    \<and> engine_failures_only (nb_contacts E self)
    \<and> engine_failures_only (path E self)
    \<and> engine_failures_only (tau_max E self args)
    \<and> engine_failures_only (rigid_contact_acceleration E self q qdot qddot idx updateKin)
    \<and> engine_failures_only (object_homogeneous_matrix E self args)
    \<and> engine_failures_only (nb_dof E self)
    \<and> engine_failures_only (marker_names E self))"
  (is "?traced \<and> ?engine_only")
proof (rule conjI)
  have set_g: "traced (set_gravity (instrumented E) self newGravity) (set_gravity E self newGravity)"
    unfolding set_gravity_def by (simp only: instrumented_simps) (rule traced_native)
  have seg_i: "traced (segment_index (instrumented E) self name) (segment_index E self name)"
    unfolding segment_index_def by (simp only: instrumented_simps) (rule traced_native)
  have mk_i: "traced (marker_index (instrumented E) self name) (marker_index E self name)"
    unfolding marker_index_def by (simp only: instrumented_simps) (rule traced_native)
  show ?traced
    unfolding gravity_def nb_tau_def nb_segments_def nb_quaternions_def nb_q_def nb_qdot_def
      nb_qddot_def nb_root_def segments_def global_homogeneous_matrices_def
      child_homogeneous_matrices_def mass_def center_of_mass_def center_of_mass_velocity_def
      center_of_mass_acceleration_def angular_momentum_def reshape_qdot_def
      segment_angular_velocity_def name_dof_def contact_names_def nb_soft_contacts_def
      soft_contact_names_def soft_contact_def muscle_names_def nb_muscles_def torque_def
      forward_dynamics_free_floating_base_def forward_dynamics_def
      constrained_forward_dynamics_def inverse_dynamics_def
      contact_forces_from_constrained_forward_dynamics_def qdot_from_impact_def state_set_def
      muscle_activation_dot_def muscle_joint_torque_def nb_markers_def nb_rigid_contacts_def
      nb_contacts_def path_def rigid_contact_acceleration_def object_homogeneous_matrix_def
      nb_dof_def marker_names_def
    by (intro conjI traced_init traced_deep_copy traced_converted traced_forwarded
        traced_name_tuple traced_count traced_markers traced_marker traced_marker_velocities
        traced_tau_max traced_soft_contact_forces traced_reshape set_g seg_i mk_i)
next
  have dc: "engine_failures_only (deep_copy E self args)"
    unfolding deep_copy_def by (intro efo_and_then efo_native efo_init)
  have mks: "engine_failures_only (markers E self args)"
    unfolding markers_def by (intro efo_rules)
  have mk: "engine_failures_only (marker E self args)"
    unfolding marker_def by (intro efo_if efo_forwarded efo_return)
  have tm: "engine_failures_only (tau_max E self args)"
    unfolding tau_max_def by (intro efo_rules)
  show ?engine_only
    unfolding gravity_def set_gravity_def nb_tau_def nb_segments_def segment_index_def
      nb_quaternions_def nb_q_def nb_qdot_def
      nb_qddot_def nb_root_def segments_def global_homogeneous_matrices_def
      child_homogeneous_matrices_def mass_def center_of_mass_def center_of_mass_velocity_def
      center_of_mass_acceleration_def angular_momentum_def reshape_qdot_def
      segment_angular_velocity_def name_dof_def contact_names_def nb_soft_contacts_def
      soft_contact_names_def soft_contact_def muscle_names_def nb_muscles_def torque_def
      forward_dynamics_free_floating_base_def forward_dynamics_def
      constrained_forward_dynamics_def inverse_dynamics_def
      contact_forces_from_constrained_forward_dynamics_def qdot_from_impact_def state_set_def
      muscle_activation_dot_def muscle_joint_torque_def nb_markers_def marker_index_def
      nb_rigid_contacts_def
      nb_contacts_def path_def rigid_contact_acceleration_def object_homogeneous_matrix_def
      nb_dof_def marker_names_def
    by (intro conjI efo_init efo_converted efo_forwarded efo_name_tuple efo_native dc mks mk tm)
qed

theorem engine_errors_propagate_witness:
  "center_of_mass (instrumented demo_engine) demo_self PyNone (PyBool True) (0, [])
     = (Inl (EngineError ''wrong dimensions''), (0, [''wrong dimensions'']))
   \<and> center_of_mass demo_engine demo_self PyNone (PyBool True) 0
     = (Inl (EngineError ''wrong dimensions''), 0)
   \<and> traced (center_of_mass (instrumented demo_engine) demo_self PyNone (PyBool True))
        (center_of_mass demo_engine demo_self PyNone (PyBool True))
   \<and> engine_failures_only (center_of_mass demo_engine demo_self PyNone (PyBool True))"
proof -
  have t: "traced (center_of_mass (instrumented demo_engine) demo_self PyNone (PyBool True))
        (center_of_mass demo_engine demo_self PyNone (PyBool True))"
    and e: "engine_failures_only (center_of_mass demo_engine demo_self PyNone (PyBool True))"
    using engine_errors_propagate [where E = demo_engine and self = demo_self and q = PyNone
        and updateKin = "PyBool True"]
    by simp_all
  have run: "center_of_mass (instrumented demo_engine) demo_self PyNone (PyBool True) (0, [])
     = (Inl (EngineError ''wrong dimensions''), (0, [''wrong dimensions'']))"
    by (simp add: center_of_mass_def converted_def instrumented_def logged_def demo_engine_def
        demo_self_def and_then_def native_def)
  have plain: "center_of_mass demo_engine demo_self PyNone (PyBool True) 0
     = (Inl (EngineError ''wrong dimensions''), 0)"
    by (simp add: center_of_mass_def converted_def demo_engine_def demo_self_def and_then_def
        native_def)
  from run plain t e show ?thesis by (intro conjI)
qed

text \<open>
  On the small engine: a successful call logs nothing, and a model file the engine cannot
  open fails the constructor with the engine's error.
\<close>

lemma demo_engine_error_values:
  "name_dof (instrumented demo_engine) \<lparr>model = DemoFrame\<rparr> (0, []) = (Inr [''Seg0_TransY'', ''Seg1_RotX''], (0, []))
   \<and> BiorbdModel_init (instrumented demo_engine) (Inl ''missing.bioMod'') (0, [])
      = (Inl (EngineError ''cannot open file''), (0, [''cannot open file'']))"
  by (simp add: name_dof_def name_tuple_def reshape_fext_to_fcontact_def nb_rigid_contacts_def
      BiorbdModel_init_def mx_getitem_def instrumented_def logged_def demo_engine_def
      demo_self_def demo_names_def demo_count_def and_then_def native_def return_def raise_def
      numeral_2_eq_2)

end
